theory Spec2Isabelle
  imports Main "HOL-Library.Word"
begin

unbundle bit_operations_syntax

section \<open>The processor as seen by the code\<close>

text \<open>
  All detection code of the repository talks to the processor through two instructions:
  the identification instruction (\<^verbatim>\<open>__cpuid\<close>, \<^verbatim>\<open>__cpuidex\<close> or the inline assembly of
  \<^verbatim>\<open>_cpuid\<close>), which takes a function selector in register A and a sub-selector in
  register C and answers with four 32-bit registers, and the read of an extended control
  register (\<^verbatim>\<open>_xgetbv\<close>). A processor is a pair of functions; every invocation is
  recorded in a trace, so that "the instruction is not invoked" is a statement about
  the trace.
\<close>

type_synonym u32 = "32 word"

text \<open>\<^verbatim>\<open>int cpu_info[4]\<close>: the registers EAX, EBX, ECX and EDX, in that order.\<close>

record quad =
  eax :: u32
  ebx :: u32
  ecx :: u32
  edx :: u32

record processor =
  cpuid_insn :: "u32 \<Rightarrow> u32 \<Rightarrow> quad"
  xgetbv_insn :: "u32 \<Rightarrow> 64 word"

datatype event = Cpuid u32 u32 | Xgetbv u32

text \<open>
  What C++ leaves undefined is a fault of the model: an index outside an array or a
  vector, a shift of a 32-bit \<^verbatim>\<open>int\<close> by 32 or more, and the increment of an \<^verbatim>\<open>int\<close>
  that holds \<^verbatim>\<open>INT_MAX\<close>. So is the exception of a \<^verbatim>\<open>push_back\<close> on a vector that cannot
  grow: nothing in the source catches it, and the program ends in \<^verbatim>\<open>std::terminate\<close>.
\<close>

datatype fault = Out_Of_Bounds | Shift_Out_Of_Range | Integer_Overflow | Bad_Alloc

text \<open>\<^verbatim>\<open>cpu_info[n]\<close> on the four-element array.\<close>

definition reg_at :: "quad \<Rightarrow> nat \<Rightarrow> fault + u32" where
  "reg_at q n =
     (if n = 0 then Inr (eax q)
      else if n = 1 then Inr (ebx q)
      else if n = 2 then Inr (ecx q)
      else if n = 3 then Inr (edx q)
      else Inl Out_Of_Bounds)"

text \<open>\<^verbatim>\<open>cpu_info[register_number] & 1 << bit_number\<close>: the shift binds tighter than the
  conjunction; both operands are 32-bit \<^verbatim>\<open>int\<close>s.\<close>

definition masked_bit :: "quad \<Rightarrow> nat \<Rightarrow> nat \<Rightarrow> fault + u32" where
  "masked_bit q register_number bit_number =
     (case reg_at q register_number of
        Inl e \<Rightarrow> Inl e
      | Inr v \<Rightarrow>
          if bit_number < 32 then Inr (v AND push_bit bit_number 1)
          else Inl Shift_Out_Of_Range)"

section \<open>The dynamic library: \<^verbatim>\<open>cpuid/cpuid.cpp\<close>\<close>

text \<open>The two static \<^verbatim>\<open>int\<close>s of the library, zero until the library is attached.\<close>

record dll_state =
  max_function_id :: u32
  max_extended_function_id :: u32

definition dll_initial :: dll_state where
  "dll_initial = \<lparr>max_function_id = 0, max_extended_function_id = 0\<rparr>"

datatype reason = DLL_PROCESS_ATTACH | DLL_THREAD_ATTACH | DLL_THREAD_DETACH | DLL_PROCESS_DETACH

fun DllMain :: "processor \<Rightarrow> reason \<Rightarrow> dll_state \<Rightarrow> dll_state \<times> event list" where
  "DllMain p DLL_PROCESS_ATTACH st =
     (let cpu_info = cpuid_insn p 0 0;
          st1 = st\<lparr>max_function_id := eax cpu_info\<rparr>;
          cpu_info' = cpuid_insn p 0x80000000 0;
          st2 = st1\<lparr>max_extended_function_id := eax cpu_info'\<rparr>
      in (st2, [Cpuid 0 0, Cpuid 0x80000000 0]))"
| "DllMain p _ st = (st, [])"

text \<open>The guard shared by \<^verbatim>\<open>cpuid\<close> and \<^verbatim>\<open>cpuidex\<close>; all four comparisons are between
  signed 32-bit \<^verbatim>\<open>int\<close>s.\<close>

definition selector_guard :: "dll_state \<Rightarrow> u32 \<Rightarrow> bool" where
  "selector_guard st function_id \<longleftrightarrow>
     (0 < sint function_id \<and> sint function_id \<le> sint (max_function_id st)) \<or>
     (sint function_id < 0 \<and> sint function_id \<le> sint (max_extended_function_id st))"

definition cpuid :: "processor \<Rightarrow> dll_state \<Rightarrow> u32 \<Rightarrow> 8 word \<Rightarrow> 8 word \<Rightarrow> (fault + u32) \<times> event list" where
  "cpuid p st function_id register_number bit_number =
     (if selector_guard st function_id then
        if register_number < 4 then
          (masked_bit (cpuid_insn p function_id 0) (unat register_number) (unat bit_number),
           [Cpuid function_id 0])
        else (Inr 0, [])
      else (Inr 0, []))"

definition cpuidex :: "processor \<Rightarrow> dll_state \<Rightarrow> u32 \<Rightarrow> u32 \<Rightarrow> 8 word \<Rightarrow> 8 word \<Rightarrow> (fault + u32) \<times> event list" where
  "cpuidex p st function_id subfunction_id register_number bit_number =
     (if selector_guard st function_id then
        if register_number < 4 then
          (masked_bit (cpuid_insn p function_id subfunction_id) (unat register_number) (unat bit_number),
           [Cpuid function_id subfunction_id])
        else (Inr 0, [])
      else (Inr 0, []))"

section \<open>The function library: \<^verbatim>\<open>CPUFeaturesLibrary/CPUFeaturesLibrary.cpp\<close>\<close>

text \<open>
  \<^verbatim>\<open>CheckFeature\<close> asks for the maximum of the range on every call. The function id is an
  \<^verbatim>\<open>int\<close>, the maximum is read from \<^verbatim>\<open>cpu_info[0]\<close>, an \<^verbatim>\<open>int\<close> too, so both
  comparisons are signed. The register array is indexed without a check.
\<close>

definition support_bit :: "quad \<Rightarrow> 8 word \<Rightarrow> 8 word \<Rightarrow> fault + bool" where
  "support_bit cpu_info registerNumber bitNumber =
     (case masked_bit cpu_info (unat registerNumber) (unat bitNumber) of
        Inl e \<Rightarrow> Inl e
      | Inr v \<Rightarrow> Inr (v \<noteq> 0))"

definition CheckFeature :: "processor \<Rightarrow> u32 \<Rightarrow> 8 word \<Rightarrow> 8 word \<Rightarrow> (fault + bool) \<times> event list" where
  "CheckFeature p functionId registerNumber bitNumber =
     (if 0 < sint functionId then
        (let cpu_info = cpuid_insn p 0 0 in
         if sint functionId \<le> sint (eax cpu_info) then
           (support_bit (cpuid_insn p functionId 0) registerNumber bitNumber,
            [Cpuid 0 0, Cpuid functionId 0])
         else (Inr False, [Cpuid 0 0]))
      else if sint functionId < 0 then
        (let cpu_info = cpuid_insn p 0x80000000 0 in
         if sint functionId \<le> sint (eax cpu_info) then
           (support_bit (cpuid_insn p functionId 0) registerNumber bitNumber,
            [Cpuid 0x80000000 0, Cpuid functionId 0])
         else (Inr False, [Cpuid 0x80000000 0]))
      else (Inr False, []))"

definition SupportLongMode :: "processor \<Rightarrow> (fault + bool) \<times> event list" where
  "SupportLongMode p = CheckFeature p 0x80000001 3 29"

definition SupportSSE :: "processor \<Rightarrow> (fault + bool) \<times> event list" where
  "SupportSSE p = CheckFeature p 1 3 25"

definition SupportSSE2 :: "processor \<Rightarrow> (fault + bool) \<times> event list" where
  "SupportSSE2 p = CheckFeature p 1 3 26"

definition SupportSSE3 :: "processor \<Rightarrow> (fault + bool) \<times> event list" where
  "SupportSSE3 p = CheckFeature p 1 2 0"

definition SupportSSSE3 :: "processor \<Rightarrow> (fault + bool) \<times> event list" where
  "SupportSSSE3 p = CheckFeature p 1 2 9"

definition SupportSSE41 :: "processor \<Rightarrow> (fault + bool) \<times> event list" where
  "SupportSSE41 p = CheckFeature p 1 2 19"

definition SupportSSE42 :: "processor \<Rightarrow> (fault + bool) \<times> event list" where
  "SupportSSE42 p = CheckFeature p 1 2 20"

definition SupportAVX :: "processor \<Rightarrow> (fault + bool) \<times> event list" where
  "SupportAVX p = CheckFeature p 1 2 28"

definition SupportAVX2 :: "processor \<Rightarrow> (fault + bool) \<times> event list" where
  "SupportAVX2 p = CheckFeature p 7 1 5"

definition SupportAVX512 :: "processor \<Rightarrow> (fault + bool) \<times> event list" where
  "SupportAVX512 p = CheckFeature p 7 1 16"

definition SupportAES :: "processor \<Rightarrow> (fault + bool) \<times> event list" where
  "SupportAES p = CheckFeature p 1 2 25"

definition SupportRDRND :: "processor \<Rightarrow> (fault + bool) \<times> event list" where
  "SupportRDRND p = CheckFeature p 1 2 30"

definition SupportVMX :: "processor \<Rightarrow> (fault + bool) \<times> event list" where
  "SupportVMX p = CheckFeature p 1 2 25"

section \<open>The cross-platform decoder (default mode of the command-line reporter)\<close>

text \<open>
  The decoder is written against preprocessor symbols. Each symbol that selects code on
  an x86 build is a flag of the build; \<open>HAVE_XGETBV\<close> stands for any of the three
  ways the source has of reading the extended control register (the \<^verbatim>\<open>_xgetbv\<close>
  intrinsic or one of the two inline assembly blocks), without which \<^verbatim>\<open>xcr0\<close> keeps its
  initial 0. The model is of a build where \<^verbatim>\<open>__arm__\<close> is not defined.
\<close>

record build =
  HAVE_EMMINTRIN_H :: bool
  HAVE_PMMINTRIN_H :: bool
  HAVE_TMMINTRIN_H :: bool
  HAVE_SMMINTRIN_H :: bool
  HAVE_AVXINTRIN_H :: bool
  HAVE_AVX2INTRIN_H :: bool
  HAVE_AVX512FINTRIN_H :: bool
  HAVE_WMMINTRIN_H :: bool
  HAVE_RDRAND :: bool
  HAVE_XGETBV :: bool

text \<open>What lines 26 to 42 of the source define under Visual C++ 2012 or later on x86 and
  x64: everything but \<^verbatim>\<open>HAVE_AVX512FINTRIN_H\<close>, which nothing in the source defines.\<close>

definition msvc_build :: build where
  "msvc_build =
     \<lparr>HAVE_EMMINTRIN_H = True, HAVE_PMMINTRIN_H = True, HAVE_TMMINTRIN_H = True,
      HAVE_SMMINTRIN_H = True, HAVE_AVXINTRIN_H = True, HAVE_AVX2INTRIN_H = True,
      HAVE_AVX512FINTRIN_H = False, HAVE_WMMINTRIN_H = True, HAVE_RDRAND = True,
      HAVE_XGETBV = True\<rparr>"

record CPUFeatures =
  has_neon :: u32
  has_sse2 :: u32
  has_sse3 :: u32
  has_ssse3 :: u32
  has_sse41 :: u32
  has_avx :: u32
  has_avx2 :: u32
  has_avx512f :: u32
  has_pclmul :: u32
  has_aesni :: u32
  has_rdrand :: u32

definition CPUID_EBX_AVX2 :: u32 where "CPUID_EBX_AVX2 = 0x00000020"
definition CPUID_EBX_AVX512F :: u32 where "CPUID_EBX_AVX512F = 0x00010000"
definition CPUID_ECX_SSE3 :: u32 where "CPUID_ECX_SSE3 = 0x00000001"
definition CPUID_ECX_PCLMUL :: u32 where "CPUID_ECX_PCLMUL = 0x00000002"
definition CPUID_ECX_SSSE3 :: u32 where "CPUID_ECX_SSSE3 = 0x00000200"
definition CPUID_ECX_SSE41 :: u32 where "CPUID_ECX_SSE41 = 0x00080000"
definition CPUID_ECX_AESNI :: u32 where "CPUID_ECX_AESNI = 0x02000000"
definition CPUID_ECX_XSAVE :: u32 where "CPUID_ECX_XSAVE = 0x04000000"
definition CPUID_ECX_OSXSAVE :: u32 where "CPUID_ECX_OSXSAVE = 0x08000000"
definition CPUID_ECX_AVX :: u32 where "CPUID_ECX_AVX = 0x10000000"
definition CPUID_ECX_RDRAND :: u32 where "CPUID_ECX_RDRAND = 0x40000000"
definition CPUID_EDX_SSE2 :: u32 where "CPUID_EDX_SSE2 = 0x04000000"
definition XCR0_SSE :: u32 where "XCR0_SSE = 0x00000002"
definition XCR0_AVX :: u32 where "XCR0_AVX = 0x00000004"

text \<open>\<^verbatim>\<open>_arm_cpu_features\<close> where \<^verbatim>\<open>__arm__\<close> is not defined.\<close>

definition arm_cpu_features :: "CPUFeatures \<Rightarrow> u32 \<times> CPUFeatures" where
  "arm_cpu_features cpu_features = (- 1, cpu_features\<lparr>has_neon := 0\<rparr>)"

text \<open>\<^verbatim>\<open>(x & MASK) != 0x0\<close> stored into an \<^verbatim>\<open>int\<close> field.\<close>

definition flag :: "u32 \<Rightarrow> u32 \<Rightarrow> u32" where
  "flag x m = (if x AND m \<noteq> 0 then 1 else 0)"

text \<open>
  Lines 179 to 214 of \<^verbatim>\<open>_intel_cpu_features\<close>, the check the specification calls
  \<^verbatim>\<open>avx_usable()\<close>: \<^verbatim>\<open>has_avx\<close> starts at 0; the extended control register is read only
  when the AVX, XSAVE and OSXSAVE bits of register C at selector 1 are all set.
\<close>

definition avx_usable :: "build \<Rightarrow> processor \<Rightarrow> quad \<Rightarrow> u32 \<times> event list" where
  "avx_usable b p cpu_info =
     (if HAVE_AVXINTRIN_H b \<and>
         ecx cpu_info AND (CPUID_ECX_AVX OR CPUID_ECX_XSAVE OR CPUID_ECX_OSXSAVE) =
           (CPUID_ECX_AVX OR CPUID_ECX_XSAVE OR CPUID_ECX_OSXSAVE)
      then
        (let xcr0 = (if HAVE_XGETBV b then ucast (xgetbv_insn p 0) else (0 :: u32));
             trace = (if HAVE_XGETBV b then [Xgetbv 0] else [])
         in if xcr0 AND (XCR0_SSE OR XCR0_AVX) = (XCR0_SSE OR XCR0_AVX)
            then (1, trace) else (0, trace))
      else (0, []))"

text \<open>Lines 216 to 224 and 226 to 234: selector 7 is queried behind \<^verbatim>\<open>has_avx\<close>, and
  again behind \<^verbatim>\<open>has_avx2\<close>.\<close>

definition avx2_support :: "build \<Rightarrow> processor \<Rightarrow> u32 \<Rightarrow> u32 \<times> event list" where
  "avx2_support b p avx =
     (if HAVE_AVX2INTRIN_H b \<and> avx \<noteq> 0
      then (flag (ebx (cpuid_insn p 7 0)) CPUID_EBX_AVX2, [Cpuid 7 0])
      else (0, []))"

definition avx512f_support :: "build \<Rightarrow> processor \<Rightarrow> u32 \<Rightarrow> u32 \<times> event list" where
  "avx512f_support b p avx2 =
     (if HAVE_AVX512FINTRIN_H b \<and> avx2 \<noteq> 0
      then (flag (ebx (cpuid_insn p 7 0)) CPUID_EBX_AVX512F, [Cpuid 7 0])
      else (0, []))"

text \<open>
  \<^verbatim>\<open>_intel_cpu_features\<close>. The structure is written through a pointer: the function gets
  the structure as the caller left it and returns it updated, with the return code and
  the trace. When selector 0 reports 0 in register A the function returns -1 before it
  has written any field.
\<close>

definition intel_cpu_features :: "build \<Rightarrow> processor \<Rightarrow> CPUFeatures \<Rightarrow> u32 \<times> CPUFeatures \<times> event list" where
  "intel_cpu_features b p cpu_features =
     (let id = eax (cpuid_insn p 0 0) in
      if id = 0 then (- 1, cpu_features, [Cpuid 0 0])
      else
        (let cpu_info = cpuid_insn p 1 0;
             (avx, t_avx) = avx_usable b p cpu_info;
             (avx2, t_avx2) = avx2_support b p avx;
             (avx512f, t_avx512f) = avx512f_support b p avx2
         in (0,
             cpu_features
               \<lparr>has_sse2 := (if HAVE_EMMINTRIN_H b then flag (edx cpu_info) CPUID_EDX_SSE2 else 0),
                has_sse3 := (if HAVE_PMMINTRIN_H b then flag (ecx cpu_info) CPUID_ECX_SSE3 else 0),
                has_ssse3 := (if HAVE_TMMINTRIN_H b then flag (ecx cpu_info) CPUID_ECX_SSSE3 else 0),
                has_sse41 := (if HAVE_SMMINTRIN_H b then flag (ecx cpu_info) CPUID_ECX_SSE41 else 0),
                has_avx := avx,
                has_avx2 := avx2,
                has_avx512f := avx512f,
                has_pclmul := (if HAVE_WMMINTRIN_H b then flag (ecx cpu_info) CPUID_ECX_PCLMUL else 0),
                has_aesni := (if HAVE_WMMINTRIN_H b then flag (ecx cpu_info) CPUID_ECX_AESNI else 0),
                has_rdrand := (if HAVE_RDRAND b then flag (ecx cpu_info) CPUID_ECX_RDRAND else 0)\<rparr>,
             [Cpuid 0 0, Cpuid 1 0] @ t_avx @ t_avx2 @ t_avx512f)))"

definition get_cpu_features :: "build \<Rightarrow> processor \<Rightarrow> CPUFeatures \<Rightarrow> u32 \<times> CPUFeatures \<times> event list" where
  "get_cpu_features b p cpu_features =
     (let (r_arm, after_arm) = arm_cpu_features cpu_features;
          (r_intel, after_intel, trace) = intel_cpu_features b p after_arm
      in (((- 1) AND r_arm) AND r_intel, after_intel, trace))"

text \<open>
  \<^verbatim>\<open>print_cpu_features\<close> declares the structure as a local variable without an
  initialiser, so its contents before \<^verbatim>\<open>_get_cpu_features\<close> are whatever the stack
  holds: a parameter of the model. The return code is dropped. What reaches the stream
  is, for each feature in the order of \<^verbatim>\<open>_print_cpu_features\<close>, its name and the field
  converted to \<^verbatim>\<open>bool\<close>; the filtering and the markup are left out.
\<close>

definition reported :: "CPUFeatures \<Rightarrow> (string \<times> bool) list" where
  "reported f =
     [(''NEON'', has_neon f \<noteq> 0), (''SSE2'', has_sse2 f \<noteq> 0), (''SSE3'', has_sse3 f \<noteq> 0),
      (''SSSE3'', has_ssse3 f \<noteq> 0), (''SSE4.1'', has_sse41 f \<noteq> 0), (''AVX'', has_avx f \<noteq> 0),
      (''AVX2'', has_avx2 f \<noteq> 0), (''AVX512F'', has_avx512f f \<noteq> 0),
      (''PCLMUL'', has_pclmul f \<noteq> 0), (''AES-NI'', has_aesni f \<noteq> 0),
      (''RDRAND'', has_rdrand f \<noteq> 0)]"

definition print_cpu_features :: "build \<Rightarrow> processor \<Rightarrow> CPUFeatures \<Rightarrow> (string \<times> bool) list \<times> event list" where
  "print_cpu_features b p stack =
     (let (ret, cpu_features, trace) = get_cpu_features b p stack
      in (reported cpu_features, trace))"

section \<open>The Microsoft-specific decoder: class \<^verbatim>\<open>InstructionSet\<close>\<close>

text \<open>\<^verbatim>\<open>data_[n]\<close> on a \<^verbatim>\<open>std::vector\<close>: outside the vector the behaviour is undefined.\<close>

definition vec_at :: "'a list \<Rightarrow> nat \<Rightarrow> fault + 'a" where
  "vec_at xs n = (if n < length xs then Inr (xs ! n) else Inl Out_Of_Bounds)"

text \<open>The four bytes of an \<^verbatim>\<open>int\<close> as \<^verbatim>\<open>*reinterpret_cast<int*>(buffer) = value\<close> and
  \<^verbatim>\<open>memcpy\<close> lay them out on x86: least significant byte first.\<close>

definition le_bytes :: "u32 \<Rightarrow> 8 word list" where
  "le_bytes w = [ucast w, ucast (drop_bit 8 w), ucast (drop_bit 16 w), ucast (drop_bit 24 w)]"

text \<open>A \<^verbatim>\<open>std::string\<close> made from a \<^verbatim>\<open>char\<close> buffer: the bytes before the first zero byte.\<close>

definition c_string :: "8 word list \<Rightarrow> string" where
  "c_string buffer = map (\<lambda>b. char_of (unat b)) (takeWhile (\<lambda>b. b \<noteq> 0) buffer)"

text \<open>\<^verbatim>\<open>char vendor[0x20]\<close>, zeroed, then filled from \<^verbatim>\<open>data_[0][1]\<close>, \<^verbatim>\<open>data_[0][3]\<close> and
  \<^verbatim>\<open>data_[0][2]\<close> at offsets 0, 4 and 8.\<close>

definition vendor_buffer :: "quad \<Rightarrow> 8 word list" where
  "vendor_buffer d0 = le_bytes (ebx d0) @ le_bytes (edx d0) @ le_bytes (ecx d0) @ replicate 20 0"

definition vendor_string :: "quad \<Rightarrow> string" where
  "vendor_string d0 = c_string (vendor_buffer d0)"

definition quad_bytes :: "quad \<Rightarrow> 8 word list" where
  "quad_bytes q = le_bytes (eax q) @ le_bytes (ebx q) @ le_bytes (ecx q) @ le_bytes (edx q)"

text \<open>\<^verbatim>\<open>char brand[0x40]\<close>, zeroed, then filled from \<^verbatim>\<open>extdata_[2]\<close>, \<^verbatim>\<open>extdata_[3]\<close> and
  \<^verbatim>\<open>extdata_[4]\<close>.\<close>

definition brand_string :: "quad \<Rightarrow> quad \<Rightarrow> quad \<Rightarrow> string" where
  "brand_string e2 e3 e4 = c_string (quad_bytes e2 @ quad_bytes e3 @ quad_bytes e4 @ replicate 16 0)"

record InstructionSet_Internal =
  nIds :: u32
  nExIds :: u32
  vendor :: string
  brand :: string
  isIntel :: bool
  isAMD :: bool
  f_1_ECX :: u32
  f_1_EDX :: u32
  f_7_EBX :: u32
  f_7_ECX :: u32
  f_81_ECX :: u32
  f_81_EDX :: u32
  data :: "quad list"
  extdata :: "quad list"

text \<open>
  The two loops \<^verbatim>\<open>for (int i = first; i <= n; ++i) { __cpuidex(cpui.data(), i, 0);
  push_back(cpui); }\<close>. The counter is a 32-bit \<^verbatim>\<open>int\<close> and the comparison is signed.
  Each round queries the processor, then appends to the vector, then increments the
  counter. A vector cannot grow without bound: \<open>room\<close> is the number of elements a
  vector of register quads can hold before \<^verbatim>\<open>push_back\<close> throws, a parameter of the model
  since it depends on the memory of the machine (it is at most \<^verbatim>\<open>max_size()\<close>, which is
  268435455 in a 32-bit build, where a quad takes 16 of at most \<open>2 ^ 32\<close> bytes).
\<close>

function query_loop ::
  "nat \<Rightarrow> processor \<Rightarrow> u32 \<Rightarrow> u32 \<Rightarrow> quad list \<Rightarrow> event list \<Rightarrow> (fault + quad list) \<times> event list" where
  "query_loop room p i n vec trace =
     (if sint i \<le> sint n then
        (if length vec < room then
           (if sint i = 2147483647 then (Inl Integer_Overflow, trace @ [Cpuid i 0])
            else query_loop room p (i + 1) n (vec @ [cpuid_insn p i 0]) (trace @ [Cpuid i 0]))
         else (Inl Bad_Alloc, trace @ [Cpuid i 0]))
      else (Inr vec, trace))"
  by pat_completeness auto
termination
  by (relation "measure (\<lambda>(room, p, i, n, vec, trace). room - length vec)") auto

declare query_loop.simps [simp del]

text \<open>The bit sets of selector 1 and selector 7, read behind \<^verbatim>\<open>nIds_ >= 1\<close> and
  \<^verbatim>\<open>nIds_ >= 7\<close> (signed comparisons), zero otherwise.\<close>

definition load_f_1 :: "u32 \<Rightarrow> quad list \<Rightarrow> fault + u32 \<times> u32" where
  "load_f_1 n std =
     (if 1 \<le> sint n
      then (case vec_at std 1 of Inl e \<Rightarrow> Inl e | Inr q \<Rightarrow> Inr (ecx q, edx q))
      else Inr (0, 0))"

definition load_f_7 :: "u32 \<Rightarrow> quad list \<Rightarrow> fault + u32 \<times> u32" where
  "load_f_7 n std =
     (if 7 \<le> sint n
      then (case vec_at std 7 of Inl e \<Rightarrow> Inl e | Inr q \<Rightarrow> Inr (ebx q, ecx q))
      else Inr (0, 0))"

text \<open>The bit sets of selector 0x80000001 and the brand string. The literals
  \<^verbatim>\<open>0x80000001\<close> and \<^verbatim>\<open>0x80000004\<close> are \<^verbatim>\<open>unsigned int\<close>, so \<^verbatim>\<open>nExIds_\<close> is converted
  and the comparisons are unsigned.\<close>

definition load_f_81 :: "u32 \<Rightarrow> quad list \<Rightarrow> fault + u32 \<times> u32" where
  "load_f_81 nx ext =
     (if 0x80000001 \<le> nx
      then (case vec_at ext 1 of Inl e \<Rightarrow> Inl e | Inr q \<Rightarrow> Inr (ecx q, edx q))
      else Inr (0, 0))"

definition load_brand :: "u32 \<Rightarrow> quad list \<Rightarrow> fault + string" where
  "load_brand nx ext =
     (if 0x80000004 \<le> nx
      then (case vec_at ext 2 of Inl e \<Rightarrow> Inl e | Inr e2 \<Rightarrow>
           (case vec_at ext 3 of Inl e \<Rightarrow> Inl e | Inr e3 \<Rightarrow>
           (case vec_at ext 4 of Inl e \<Rightarrow> Inl e | Inr e4 \<Rightarrow>
              Inr (brand_string e2 e3 e4))))
      else Inr [])"

text \<open>
  The constructor of \<^verbatim>\<open>InstructionSet_Internal\<close>, which builds the static \<^verbatim>\<open>CPU_Rep\<close>, in
  the order of the source. The result is a fault with the trace up to it when a vector
  cannot grow, when a counter overflows or when a vector is read out of bounds, and the
  record with the whole trace otherwise.
\<close>

definition CPU_Rep :: "nat \<Rightarrow> processor \<Rightarrow> (fault + InstructionSet_Internal) \<times> event list" where
  "CPU_Rep room p =
     (let n = eax (cpuid_insn p 0 0) in
      case query_loop room p 0 n [] [Cpuid 0 0] of
        (Inl e, t1) \<Rightarrow> (Inl e, t1)
      | (Inr std, t1) \<Rightarrow>
         (case vec_at std 0 of
            Inl e \<Rightarrow> (Inl e, t1)
          | Inr d0 \<Rightarrow>
             (let ven = vendor_string d0;
                  intel = (ven = ''GenuineIntel'');
                  amd = (\<not> intel \<and> ven = ''AuthenticAMD'')
              in case load_f_1 n std of
                   Inl e \<Rightarrow> (Inl e, t1)
                 | Inr (c1, d1) \<Rightarrow>
                  (case load_f_7 n std of
                     Inl e \<Rightarrow> (Inl e, t1)
                   | Inr (b7, c7) \<Rightarrow>
                    (let nx = eax (cpuid_insn p 0x80000000 0);
                         t2 = t1 @ [Cpuid 0x80000000 0]
                     in case query_loop room p 0x80000000 nx [] t2 of
                          (Inl e, t3) \<Rightarrow> (Inl e, t3)
                        | (Inr ext, t3) \<Rightarrow>
                           (case load_f_81 nx ext of
                              Inl e \<Rightarrow> (Inl e, t3)
                            | Inr (c81, d81) \<Rightarrow>
                             (case load_brand nx ext of
                                Inl e \<Rightarrow> (Inl e, t3)
                              | Inr br \<Rightarrow>
                                 (Inr \<lparr>nIds = n, nExIds = nx,
                                       vendor = ven, brand = br,
                                       isIntel = intel, isAMD = amd,
                                       f_1_ECX = c1, f_1_EDX = d1,
                                       f_7_EBX = b7, f_7_ECX = c7,
                                       f_81_ECX = c81, f_81_EDX = d81,
                                       data = std, extdata = ext\<rparr>,
                                  t3))))))))"

text \<open>The getters; \<^verbatim>\<open>f[n]\<close> on a \<^verbatim>\<open>std::bitset<32>\<close> is bit \<open>n\<close>. The members of the
  class are written without their trailing underscore. The source's \<^verbatim>\<open>_3DNOW\<close>
  and \<^verbatim>\<open>_3DNOWEXT\<close> are \<open>X_3DNOW\<close> and \<open>X_3DNOWEXT\<close> here.\<close>

definition Vendor :: "InstructionSet_Internal \<Rightarrow> string" where
  "Vendor r = vendor r"

definition Brand :: "InstructionSet_Internal \<Rightarrow> string" where
  "Brand r = brand r"

definition SSE3 :: "InstructionSet_Internal \<Rightarrow> bool" where
  "SSE3 r \<longleftrightarrow> bit (f_1_ECX r) 0"

definition PCLMULQDQ :: "InstructionSet_Internal \<Rightarrow> bool" where
  "PCLMULQDQ r \<longleftrightarrow> bit (f_1_ECX r) 1"

definition MONITOR :: "InstructionSet_Internal \<Rightarrow> bool" where
  "MONITOR r \<longleftrightarrow> bit (f_1_ECX r) 3"

definition VMX :: "InstructionSet_Internal \<Rightarrow> bool" where
  "VMX r \<longleftrightarrow> bit (f_1_ECX r) 5"

definition SSSE3 :: "InstructionSet_Internal \<Rightarrow> bool" where
  "SSSE3 r \<longleftrightarrow> bit (f_1_ECX r) 9"

definition FMA :: "InstructionSet_Internal \<Rightarrow> bool" where
  "FMA r \<longleftrightarrow> bit (f_1_ECX r) 12"

definition CMPXCHG16B :: "InstructionSet_Internal \<Rightarrow> bool" where
  "CMPXCHG16B r \<longleftrightarrow> bit (f_1_ECX r) 13"

definition SSE41 :: "InstructionSet_Internal \<Rightarrow> bool" where
  "SSE41 r \<longleftrightarrow> bit (f_1_ECX r) 19"

definition SSE42 :: "InstructionSet_Internal \<Rightarrow> bool" where
  "SSE42 r \<longleftrightarrow> bit (f_1_ECX r) 20"

definition MOVBE :: "InstructionSet_Internal \<Rightarrow> bool" where
  "MOVBE r \<longleftrightarrow> bit (f_1_ECX r) 22"

definition POPCNT :: "InstructionSet_Internal \<Rightarrow> bool" where
  "POPCNT r \<longleftrightarrow> bit (f_1_ECX r) 23"

definition AES :: "InstructionSet_Internal \<Rightarrow> bool" where
  "AES r \<longleftrightarrow> bit (f_1_ECX r) 25"

definition XSAVE :: "InstructionSet_Internal \<Rightarrow> bool" where
  "XSAVE r \<longleftrightarrow> bit (f_1_ECX r) 26"

definition OSXSAVE :: "InstructionSet_Internal \<Rightarrow> bool" where
  "OSXSAVE r \<longleftrightarrow> bit (f_1_ECX r) 27"

definition AVX :: "InstructionSet_Internal \<Rightarrow> bool" where
  "AVX r \<longleftrightarrow> bit (f_1_ECX r) 28"

definition F16C :: "InstructionSet_Internal \<Rightarrow> bool" where
  "F16C r \<longleftrightarrow> bit (f_1_ECX r) 29"

definition RDRAND :: "InstructionSet_Internal \<Rightarrow> bool" where
  "RDRAND r \<longleftrightarrow> bit (f_1_ECX r) 30"

definition MSR :: "InstructionSet_Internal \<Rightarrow> bool" where
  "MSR r \<longleftrightarrow> bit (f_1_EDX r) 5"

definition CX8 :: "InstructionSet_Internal \<Rightarrow> bool" where
  "CX8 r \<longleftrightarrow> bit (f_1_EDX r) 8"

definition SEP :: "InstructionSet_Internal \<Rightarrow> bool" where
  "SEP r \<longleftrightarrow> bit (f_1_EDX r) 11"

definition CMOV :: "InstructionSet_Internal \<Rightarrow> bool" where
  "CMOV r \<longleftrightarrow> bit (f_1_EDX r) 15"

definition CLFSH :: "InstructionSet_Internal \<Rightarrow> bool" where
  "CLFSH r \<longleftrightarrow> bit (f_1_EDX r) 19"

definition MMX :: "InstructionSet_Internal \<Rightarrow> bool" where
  "MMX r \<longleftrightarrow> bit (f_1_EDX r) 23"

definition FXSR :: "InstructionSet_Internal \<Rightarrow> bool" where
  "FXSR r \<longleftrightarrow> bit (f_1_EDX r) 24"

definition SSE :: "InstructionSet_Internal \<Rightarrow> bool" where
  "SSE r \<longleftrightarrow> bit (f_1_EDX r) 25"

definition SSE2 :: "InstructionSet_Internal \<Rightarrow> bool" where
  "SSE2 r \<longleftrightarrow> bit (f_1_EDX r) 26"

definition FSGSBASE :: "InstructionSet_Internal \<Rightarrow> bool" where
  "FSGSBASE r \<longleftrightarrow> bit (f_7_EBX r) 0"

definition BMI1 :: "InstructionSet_Internal \<Rightarrow> bool" where
  "BMI1 r \<longleftrightarrow> bit (f_7_EBX r) 3"

definition HLE :: "InstructionSet_Internal \<Rightarrow> bool" where
  "HLE r \<longleftrightarrow> isIntel r \<and> bit (f_7_EBX r) 4"

definition AVX2 :: "InstructionSet_Internal \<Rightarrow> bool" where
  "AVX2 r \<longleftrightarrow> bit (f_7_EBX r) 5"

definition BMI2 :: "InstructionSet_Internal \<Rightarrow> bool" where
  "BMI2 r \<longleftrightarrow> bit (f_7_EBX r) 8"

definition ERMS :: "InstructionSet_Internal \<Rightarrow> bool" where
  "ERMS r \<longleftrightarrow> bit (f_7_EBX r) 9"

definition INVPCID :: "InstructionSet_Internal \<Rightarrow> bool" where
  "INVPCID r \<longleftrightarrow> bit (f_7_EBX r) 10"

definition RTM :: "InstructionSet_Internal \<Rightarrow> bool" where
  "RTM r \<longleftrightarrow> isIntel r \<and> bit (f_7_EBX r) 11"

definition AVX512F :: "InstructionSet_Internal \<Rightarrow> bool" where
  "AVX512F r \<longleftrightarrow> bit (f_7_EBX r) 16"

definition RDSEED :: "InstructionSet_Internal \<Rightarrow> bool" where
  "RDSEED r \<longleftrightarrow> bit (f_7_EBX r) 18"

definition ADX :: "InstructionSet_Internal \<Rightarrow> bool" where
  "ADX r \<longleftrightarrow> bit (f_7_EBX r) 19"

definition AVX512PF :: "InstructionSet_Internal \<Rightarrow> bool" where
  "AVX512PF r \<longleftrightarrow> bit (f_7_EBX r) 26"

definition AVX512ER :: "InstructionSet_Internal \<Rightarrow> bool" where
  "AVX512ER r \<longleftrightarrow> bit (f_7_EBX r) 27"

definition AVX512CD :: "InstructionSet_Internal \<Rightarrow> bool" where
  "AVX512CD r \<longleftrightarrow> bit (f_7_EBX r) 28"

definition SHA :: "InstructionSet_Internal \<Rightarrow> bool" where
  "SHA r \<longleftrightarrow> bit (f_7_EBX r) 29"

definition PREFETCHWT1 :: "InstructionSet_Internal \<Rightarrow> bool" where
  "PREFETCHWT1 r \<longleftrightarrow> bit (f_7_ECX r) 0"

definition LAHF :: "InstructionSet_Internal \<Rightarrow> bool" where
  "LAHF r \<longleftrightarrow> bit (f_81_ECX r) 0"

definition LZCNT :: "InstructionSet_Internal \<Rightarrow> bool" where
  "LZCNT r \<longleftrightarrow> isIntel r \<and> bit (f_81_ECX r) 5"

definition ABM :: "InstructionSet_Internal \<Rightarrow> bool" where
  "ABM r \<longleftrightarrow> isAMD r \<and> bit (f_81_ECX r) 5"

definition SSE4a :: "InstructionSet_Internal \<Rightarrow> bool" where
  "SSE4a r \<longleftrightarrow> isAMD r \<and> bit (f_81_ECX r) 6"

definition XOP :: "InstructionSet_Internal \<Rightarrow> bool" where
  "XOP r \<longleftrightarrow> isAMD r \<and> bit (f_81_ECX r) 11"

definition TBM :: "InstructionSet_Internal \<Rightarrow> bool" where
  "TBM r \<longleftrightarrow> isAMD r \<and> bit (f_81_ECX r) 21"

definition SYSCALL :: "InstructionSet_Internal \<Rightarrow> bool" where
  "SYSCALL r \<longleftrightarrow> isIntel r \<and> bit (f_81_EDX r) 11"

definition MMXEXT :: "InstructionSet_Internal \<Rightarrow> bool" where
  "MMXEXT r \<longleftrightarrow> isAMD r \<and> bit (f_81_EDX r) 22"

definition RDTSCP :: "InstructionSet_Internal \<Rightarrow> bool" where
  "RDTSCP r \<longleftrightarrow> isIntel r \<and> bit (f_81_EDX r) 27"

definition LongMode :: "InstructionSet_Internal \<Rightarrow> bool" where
  "LongMode r \<longleftrightarrow> bit (f_81_EDX r) 29"

definition X_3DNOWEXT :: "InstructionSet_Internal \<Rightarrow> bool" where
  "X_3DNOWEXT r \<longleftrightarrow> isAMD r \<and> bit (f_81_EDX r) 30"

definition X_3DNOW :: "InstructionSet_Internal \<Rightarrow> bool" where
  "X_3DNOW r \<longleftrightarrow> isAMD r \<and> bit (f_81_EDX r) 31"

section \<open>Stubbed processors\<close>

text \<open>
  Processors for the concrete scenarios below. \<open>intel_stub\<close> answers like a
  GenuineIntel processor with AVX2 whose highest standard selector is 0x16 and whose
  highest extended selector is 0x80000008, under an operating system that has enabled the
  SSE and AVX state.
\<close>

definition no_info :: quad where
  "no_info = \<lparr>eax = 0, ebx = 0, ecx = 0, edx = 0\<rparr>"

definition intel_stub :: processor where
  "intel_stub =
     \<lparr>cpuid_insn = (\<lambda>f s.
        if f = 0 then \<lparr>eax = 0x16, ebx = 0x756e6547, ecx = 0x6c65746e, edx = 0x49656e69\<rparr>
        else if f = 1 then \<lparr>eax = 0x000906EA, ebx = 0x00100800, ecx = 0x7FFAFBFF, edx = 0xBFEBFBFF\<rparr>
        else if f = 7 \<and> s = 0 then \<lparr>eax = 0, ebx = 0x029C67AF, ecx = 0, edx = 0\<rparr>
        else if f = 0x80000000 then \<lparr>eax = 0x80000008, ebx = 0, ecx = 0, edx = 0\<rparr>
        else if f = 0x80000001 then \<lparr>eax = 0, ebx = 0, ecx = 0x00000121, edx = 0x2C100800\<rparr>
        else no_info),
      xgetbv_insn = (\<lambda>i. if i = 0 then 0x1F else 0)\<rparr>"

text \<open>A processor that reports 1 as its highest standard selector and 0x80000000 as its
  highest extended selector, has AVX enabled by the operating system, and answers
  selector 7 with the AVX2 bit set in register B.\<close>

definition low_max_stub :: processor where
  "low_max_stub =
     \<lparr>cpuid_insn = (\<lambda>f s.
        if f = 0 then \<lparr>eax = 1, ebx = 0x756e6547, ecx = 0x6c65746e, edx = 0x49656e69\<rparr>
        else if f = 1 then \<lparr>eax = 0, ebx = 0, ecx = 0x1C000000, edx = 0\<rparr>
        else if f = 7 then \<lparr>eax = 0, ebx = 0x00000020, ecx = 0, edx = 0\<rparr>
        else if f = 0x80000000 then \<lparr>eax = 0x80000000, ebx = 0, ecx = 0, edx = 0\<rparr>
        else no_info),
      xgetbv_insn = (\<lambda>i. 6)\<rparr>"

text \<open>A processor with the AVX, AVX2 and AVX-512F hardware bits and XSAVE, on which the
  operating system has not enabled the extended state (OSXSAVE is 0).\<close>

definition os_disabled_stub :: processor where
  "os_disabled_stub =
     \<lparr>cpuid_insn = (\<lambda>f s.
        if f = 0 then \<lparr>eax = 0x16, ebx = 0x756e6547, ecx = 0x6c65746e, edx = 0x49656e69\<rparr>
        else if f = 1 then \<lparr>eax = 0, ebx = 0, ecx = 0x14000000, edx = 0\<rparr>
        else if f = 7 then \<lparr>eax = 0, ebx = 0x00010020, ecx = 0, edx = 0\<rparr>
        else no_info),
      xgetbv_insn = (\<lambda>i. 0)\<rparr>"

text \<open>A stubbed invoker that answers every selector with zeros, so that selector 0
  reports 0 in register A.\<close>

definition silent_stub :: processor where
  "silent_stub = \<lparr>cpuid_insn = (\<lambda>f s. no_info), xgetbv_insn = (\<lambda>i. 0)\<rparr>"

text \<open>Stack contents as a debug build of Visual C++ leaves them: every byte 0xCC.\<close>

definition stale_stack :: CPUFeatures where
  "stale_stack =
     \<lparr>has_neon = 0xCCCCCCCC, has_sse2 = 0xCCCCCCCC, has_sse3 = 0xCCCCCCCC,
      has_ssse3 = 0xCCCCCCCC, has_sse41 = 0xCCCCCCCC, has_avx = 0xCCCCCCCC,
      has_avx2 = 0xCCCCCCCC, has_avx512f = 0xCCCCCCCC, has_pclmul = 0xCCCCCCCC,
      has_aesni = 0xCCCCCCCC, has_rdrand = 0xCCCCCCCC\<rparr>"

text \<open>The same stack with a zero where \<^verbatim>\<open>has_avx\<close> will lie.\<close>

definition half_stale_stack :: CPUFeatures where
  "half_stale_stack = stale_stack\<lparr>has_avx := 0\<rparr>"

text \<open>A stubbed invoker that answers selector 0 with 0x16 in register A and selector 7,
  sub-selector 0, with bit 5 of register B, and every other query with zeros.\<close>

definition avx2_only_stub :: processor where
  "avx2_only_stub =
     \<lparr>cpuid_insn = (\<lambda>f s.
        if f = 0 then \<lparr>eax = 0x16, ebx = 0, ecx = 0, edx = 0\<rparr>
        else if f = 7 \<and> s = 0 then \<lparr>eax = 0, ebx = 0x00000020, ecx = 0, edx = 0\<rparr>
        else no_info),
      xgetbv_insn = (\<lambda>i. 0)\<rparr>"

text \<open>\<^verbatim>\<open>max_size()\<close> of a vector of register quads in a 32-bit build.\<close>

definition room_x86 :: nat where
  "room_x86 = 268435455"

definition attached :: "processor \<Rightarrow> dll_state" where
  "attached p = fst (DllMain p DLL_PROCESS_ATTACH dll_initial)"

section \<open>Properties of the dynamic library\<close>

lemma selector_guard_zero: "\<not> selector_guard st 0"
  by (simp add: selector_guard_def)

lemma masked_bit_in_bounds: "n < 4 \<Longrightarrow> masked_bit q n b \<noteq> Inl Out_Of_Bounds"
  by (auto simp: masked_bit_def reg_at_def)

lemma masked_bit_value:
  "n < 4 \<Longrightarrow> b < 32 \<Longrightarrow> \<exists>v. masked_bit q n b = Inr v"
  by (auto simp: masked_bit_def reg_at_def)

lemma unat_byte_less_4: "(r :: 8 word) < 4 \<Longrightarrow> unat r < 4"
  by (simp add: word_less_nat_alt)

text \<open>
  Claim C9. Whatever the cached maxima, the register number and the bit number are,
  \<^verbatim>\<open>cpuid\<close> and \<^verbatim>\<open>cpuidex\<close> answer 0 for function id 0, and they do so without invoking
  the identification instruction: the guard asks for a strictly positive (or strictly
  negative) function id.
\<close>

theorem cpuid_selector_zero:
  "cpuid p st 0 register_number bit_number = (Inr 0, []) \<and>
   cpuidex p st 0 subfunction_id register_number bit_number = (Inr 0, [])"
  by (simp add: cpuid_def cpuidex_def selector_guard_zero)

text \<open>
  Claim C10. For a register number of 4 or more, \<^verbatim>\<open>cpuid\<close> and \<^verbatim>\<open>cpuidex\<close> answer 0
  with an empty trace, for every function id; and for no input at all does either of
  them index the register array out of bounds. With a bit number below 32 both return a
  value for every register number.
\<close>

theorem cpuid_register_bounds:
  "(4 \<le> register_number \<longrightarrow>
      cpuid p st function_id register_number bit_number = (Inr 0, []) \<and>
      cpuidex p st function_id subfunction_id register_number bit_number = (Inr 0, [])) \<and>
   fst (cpuid p st function_id register_number bit_number) \<noteq> Inl Out_Of_Bounds \<and>
   fst (cpuidex p st function_id subfunction_id register_number bit_number) \<noteq> Inl Out_Of_Bounds \<and>
   (bit_number < 32 \<longrightarrow>
      (\<exists>v. fst (cpuid p st function_id register_number bit_number) = Inr v) \<and>
      (\<exists>v. fst (cpuidex p st function_id subfunction_id register_number bit_number) = Inr v))"
proof -
  have a: "4 \<le> register_number \<longrightarrow>
      cpuid p st function_id register_number bit_number = (Inr 0, []) \<and>
      cpuidex p st function_id subfunction_id register_number bit_number = (Inr 0, [])"
    by (simp add: cpuid_def cpuidex_def not_less [symmetric])
  have b: "fst (cpuid p st function_id register_number bit_number) \<noteq> Inl Out_Of_Bounds"
    by (simp add: cpuid_def masked_bit_in_bounds unat_byte_less_4)
  have c: "fst (cpuidex p st function_id subfunction_id register_number bit_number) \<noteq> Inl Out_Of_Bounds"
    by (simp add: cpuidex_def masked_bit_in_bounds unat_byte_less_4)
  have d: "bit_number < 32 \<longrightarrow>
      (\<exists>v. fst (cpuid p st function_id register_number bit_number) = Inr v) \<and>
      (\<exists>v. fst (cpuidex p st function_id subfunction_id register_number bit_number) = Inr v)"
  proof
    assume "bit_number < 32"
    then have "unat bit_number < 32"
      by (simp add: word_less_nat_alt)
    then show "(\<exists>v. fst (cpuid p st function_id register_number bit_number) = Inr v) \<and>
      (\<exists>v. fst (cpuidex p st function_id subfunction_id register_number bit_number) = Inr v)"
      by (simp add: cpuid_def cpuidex_def masked_bit_value unat_byte_less_4)
  qed
  from a b c d show ?thesis by blast
qed


theorem cpuid_register_bounds_witness:
  "(4 :: 8 word) \<le> 9 \<and> (5 :: 8 word) < 32 \<and>
   selector_guard (attached intel_stub) 7 \<and>
   cpuid intel_stub (attached intel_stub) 7 9 5 = (Inr 0, []) \<and>
   cpuidex intel_stub (attached intel_stub) 7 0 9 5 = (Inr 0, []) \<and>
   cpuid intel_stub (attached intel_stub) 7 1 5 = (Inr 0x20, [Cpuid 7 0])"
  using cpuid_register_bounds [of 9 intel_stub "attached intel_stub" 7 5 0]
  by (simp add: cpuid_def selector_guard_def attached_def intel_stub_def masked_bit_def reg_at_def)

section \<open>Properties of the cross-platform decoder\<close>

lemma bit_two: "bit (push_bit a 1 OR push_bit b (1 :: u32)) n \<longleftrightarrow> n < 32 \<and> (n = a \<or> n = b)"
  by (auto simp: bit_simps)

lemma bit_three:
  "bit (push_bit a 1 OR push_bit b 1 OR push_bit c (1 :: u32)) n \<longleftrightarrow> n < 32 \<and> (n = a \<or> n = b \<or> n = c)"
  by (auto simp: bit_simps)

lemma and_eq_mask_iff: "(w :: 'a :: len word) AND m = m \<longleftrightarrow> (\<forall>n. bit m n \<longrightarrow> bit w n)"
  by (auto simp: bit_eq_iff bit_simps dest: bit_imp_le_length)

lemma cpuid_avx_mask: "(w :: u32) AND 0x1C000000 = 0x1C000000 \<longleftrightarrow> bit w 28 \<and> bit w 26 \<and> bit w 27"
  using bit_three [of 26 27 28] by (auto simp: and_eq_mask_iff)

lemma xcr0_mask: "(w :: u32) AND 6 = 6 \<longleftrightarrow> bit w 1 \<and> bit w 2"
  using bit_two [of 1 2] by (auto simp: and_eq_mask_iff)

lemma avx_usable_msvc:
  "avx_usable msvc_build p cpu_info =
     (if bit (ecx cpu_info) 28 \<and> bit (ecx cpu_info) 26 \<and> bit (ecx cpu_info) 27
      then (if bit (xgetbv_insn p 0) 1 \<and> bit (xgetbv_insn p 0) 2 then 1 else 0, [Xgetbv 0])
      else (0, []))"
  by (auto simp: avx_usable_def msvc_build_def CPUID_ECX_AVX_def CPUID_ECX_XSAVE_def
      CPUID_ECX_OSXSAVE_def XCR0_SSE_def XCR0_AVX_def cpuid_avx_mask xcr0_mask bit_ucast_iff Let_def)

lemma intel_cpu_features_early:
  "eax (cpuid_insn p 0 0) = 0 \<Longrightarrow> intel_cpu_features b p f = (- 1, f, [Cpuid 0 0])"
  by (simp add: intel_cpu_features_def)

lemma intel_cpu_features_has_avx:
  "eax (cpuid_insn p 0 0) \<noteq> 0 \<Longrightarrow>
   has_avx (fst (snd (intel_cpu_features b p f))) = fst (avx_usable b p (cpuid_insn p 1 0))"
  by (simp add: intel_cpu_features_def Let_def split: prod.splits)

text \<open>
  Wherever the decoder gets as far as the AVX check, which it does unless selector 0
  reports 0 in register A, \<^verbatim>\<open>has_avx\<close> is set exactly when bits 28 (AVX), 26 (XSAVE) and
  27 (OSXSAVE) of register C at selector 1 and bits 1 and 2 of the extended control
  register are all set.
\<close>

lemma avx_usable_reached:
  "(fst (avx_usable msvc_build p cpu_info) \<noteq> 0 \<longleftrightarrow>
      bit (ecx cpu_info) 28 \<and> bit (ecx cpu_info) 26 \<and> bit (ecx cpu_info) 27 \<and>
      bit (xgetbv_insn p 0) 1 \<and> bit (xgetbv_insn p 0) 2) \<and>
   (eax (cpuid_insn p 0 0) \<noteq> 0 \<longrightarrow>
      (has_avx (fst (snd (intel_cpu_features msvc_build p f))) \<noteq> 0 \<longleftrightarrow>
         bit (ecx (cpuid_insn p 1 0)) 28 \<and> bit (ecx (cpuid_insn p 1 0)) 26 \<and>
         bit (ecx (cpuid_insn p 1 0)) 27 \<and>
         bit (xgetbv_insn p 0) 1 \<and> bit (xgetbv_insn p 0) 2))"
proof -
  have blk: "\<And>c. fst (avx_usable msvc_build p c) \<noteq> 0 \<longleftrightarrow>
      bit (ecx c) 28 \<and> bit (ecx c) 26 \<and> bit (ecx c) 27 \<and>
      bit (xgetbv_insn p 0) 1 \<and> bit (xgetbv_insn p 0) 2"
    by (auto simp: avx_usable_msvc)
  have dec: "(has_avx (fst (snd (intel_cpu_features msvc_build p f))) \<noteq> 0 \<longleftrightarrow>
         bit (ecx (cpuid_insn p 1 0)) 28 \<and> bit (ecx (cpuid_insn p 1 0)) 26 \<and>
         bit (ecx (cpuid_insn p 1 0)) 27 \<and>
         bit (xgetbv_insn p 0) 1 \<and> bit (xgetbv_insn p 0) 2)"
    if nz: "eax (cpuid_insn p 0 0) \<noteq> 0"
    using blk [of "cpuid_insn p 1 0"] intel_cpu_features_has_avx [OF nz, of msvc_build f]
    by simp
  from blk [of cpu_info] dec show ?thesis by blast
qed

lemma intel_cpu_features_trace:
  "eax (cpuid_insn p 0 0) \<noteq> 0 \<Longrightarrow>
   snd (snd (intel_cpu_features b p f)) =
     [Cpuid 0 0, Cpuid 1 0] @ snd (avx_usable b p (cpuid_insn p 1 0)) @
     snd (avx2_support b p (fst (avx_usable b p (cpuid_insn p 1 0)))) @
     snd (avx512f_support b p (fst (avx2_support b p (fst (avx_usable b p (cpuid_insn p 1 0))))))"
  by (simp add: intel_cpu_features_def Let_def split: prod.splits)

lemma intel_cpu_features_has_avx2:
  "eax (cpuid_insn p 0 0) \<noteq> 0 \<Longrightarrow>
   has_avx2 (fst (snd (intel_cpu_features b p f))) =
     fst (avx2_support b p (fst (avx_usable b p (cpuid_insn p 1 0))))"
  by (simp add: intel_cpu_features_def Let_def split: prod.splits)

lemma intel_cpu_features_has_avx512f:
  "eax (cpuid_insn p 0 0) \<noteq> 0 \<Longrightarrow>
   has_avx512f (fst (snd (intel_cpu_features b p f))) =
     fst (avx512f_support b p (fst (avx2_support b p (fst (avx_usable b p (cpuid_insn p 1 0))))))"
  by (simp add: intel_cpu_features_def Let_def split: prod.splits)

lemma avx_usable_trace: "Cpuid f s \<notin> set (snd (avx_usable b p c))"
  by (simp add: avx_usable_def Let_def)

text \<open>
  Wherever the decoder gets as far as the AVX check and leaves \<^verbatim>\<open>has_avx\<close> at 0, it
  leaves \<^verbatim>\<open>has_avx2\<close> and \<^verbatim>\<open>has_avx512f\<close> at 0 and does not query selector 7.
\<close>

lemma avx2_avx512f_reached:
  "(fst (avx_usable b p cpu_info) = 0 \<longrightarrow>
      avx2_support b p (fst (avx_usable b p cpu_info)) = (0, []) \<and>
      avx512f_support b p (fst (avx2_support b p (fst (avx_usable b p cpu_info)))) = (0, [])) \<and>
   (eax (cpuid_insn p 0 0) \<noteq> 0 \<and> has_avx (fst (snd (intel_cpu_features b p f))) = 0 \<longrightarrow>
      has_avx2 (fst (snd (intel_cpu_features b p f))) = 0 \<and>
      has_avx512f (fst (snd (intel_cpu_features b p f))) = 0 \<and>
      (\<forall>s. Cpuid 7 s \<notin> set (snd (snd (intel_cpu_features b p f)))))"
proof -
  have a5: "avx512f_support b p 0 = (0, [])"
    by (simp add: avx512f_support_def)
  have blk: "avx2_support b p (fst (avx_usable b p c)) = (0, []) \<and>
      avx512f_support b p (fst (avx2_support b p (fst (avx_usable b p c)))) = (0, [])"
    if "fst (avx_usable b p c) = 0" for c
    using that by (simp add: avx2_support_def a5)
  have dec: "has_avx2 (fst (snd (intel_cpu_features b p f))) = 0 \<and>
      has_avx512f (fst (snd (intel_cpu_features b p f))) = 0 \<and>
      (\<forall>s. Cpuid 7 s \<notin> set (snd (snd (intel_cpu_features b p f))))"
    if reached: "eax (cpuid_insn p 0 0) \<noteq> 0"
      and unusable: "has_avx (fst (snd (intel_cpu_features b p f))) = 0"
  proof -
    from reached unusable have a: "fst (avx_usable b p (cpuid_insn p 1 0)) = 0"
      by (simp add: intel_cpu_features_has_avx)
    from blk [OF a] have a2: "avx2_support b p (fst (avx_usable b p (cpuid_insn p 1 0))) = (0, [])"
      by simp
    show ?thesis
      using reached
      by (simp add: intel_cpu_features_has_avx2 intel_cpu_features_has_avx512f
          intel_cpu_features_trace a2 a5 avx_usable_trace)
  qed
  from blk [of cpu_info] dec show ?thesis by blast
qed

text \<open>
  Claim C2. The claim holds wherever the decoder reaches the AVX check, and fails where it
  does not: when selector 0 reports 0 in register A, \<^verbatim>\<open>_intel_cpu_features\<close> returns
  before line 179, and \<^verbatim>\<open>has_avx\<close> is what the stack held. On the stubbed invoker that
  answers zeros the AVX bit of selector 1 is 0, and with the stale stack AVX is reported
  as supported.
\<close>

theorem has_avx_stale:
  "eax (cpuid_insn silent_stub 0 0) = 0 \<and>
   \<not> bit (ecx (cpuid_insn silent_stub 1 0)) 28 \<and>
   has_avx (fst (snd (get_cpu_features msvc_build silent_stub stale_stack))) = 0xCCCCCCCC \<and>
   (''AVX'', True) \<in> set (fst (print_cpu_features msvc_build silent_stub stale_stack))"
  by (simp add: print_cpu_features_def get_cpu_features_def arm_cpu_features_def
      intel_cpu_features_early silent_stub_def no_info_def reported_def stale_stack_def)

text \<open>
  Claim C3. The claim holds wherever the decoder reaches the AVX check, and fails where it
  does not: when selector 0 reports 0 in register A, \<^verbatim>\<open>_intel_cpu_features\<close> returns
  before lines 216 and 226, and the three fields are what the stack held. With a stack
  that holds 0 where \<^verbatim>\<open>has_avx\<close> lies and stale bytes elsewhere, AVX is reported as
  unsupported, AVX2 and AVX512F as supported.
\<close>

theorem has_avx2_stale:
  "eax (cpuid_insn silent_stub 0 0) = 0 \<and>
   has_avx (fst (snd (get_cpu_features msvc_build silent_stub half_stale_stack))) = 0 \<and>
   has_avx2 (fst (snd (get_cpu_features msvc_build silent_stub half_stale_stack))) = 0xCCCCCCCC \<and>
   has_avx512f (fst (snd (get_cpu_features msvc_build silent_stub half_stale_stack))) = 0xCCCCCCCC \<and>
   print_cpu_features msvc_build silent_stub half_stale_stack =
     ([(''NEON'', False), (''SSE2'', True), (''SSE3'', True), (''SSSE3'', True),
       (''SSE4.1'', True), (''AVX'', False), (''AVX2'', True), (''AVX512F'', True),
       (''PCLMUL'', True), (''AES-NI'', True), (''RDRAND'', True)],
      [Cpuid 0 0])"
  by (simp add: print_cpu_features_def get_cpu_features_def arm_cpu_features_def
      intel_cpu_features_early silent_stub_def no_info_def reported_def stale_stack_def
      half_stale_stack_def)

text \<open>
  Claim C5. On a stubbed invoker whose selector 0 reports 0 in register A,
  \<^verbatim>\<open>_intel_cpu_features\<close> returns before it writes any field, and \<^verbatim>\<open>print_cpu_features\<close>
  reports the fields as the stack held them: with the stale stack every feature but NEON
  is reported as supported, although none was determined.
\<close>

theorem print_cpu_features_stale:
  "eax (cpuid_insn silent_stub 0 0) = 0 \<and>
   print_cpu_features msvc_build silent_stub stale_stack =
     ([(''NEON'', False), (''SSE2'', True), (''SSE3'', True), (''SSSE3'', True),
       (''SSE4.1'', True), (''AVX'', True), (''AVX2'', True), (''AVX512F'', True),
       (''PCLMUL'', True), (''AES-NI'', True), (''RDRAND'', True)],
      [Cpuid 0 0])"
  by (simp add: print_cpu_features_def get_cpu_features_def arm_cpu_features_def
      intel_cpu_features_early silent_stub_def no_info_def reported_def stale_stack_def)

section \<open>Properties of the function library\<close>

lemma support_bit_ecx: "b < 32 \<Longrightarrow> support_bit q 2 b = Inr (bit (ecx q) (unat b))"
  by (simp add: support_bit_def masked_bit_def reg_at_def bit_iff_and_push_bit_not_eq_0 word_less_nat_alt)

lemma support_bit_ebx: "b < 32 \<Longrightarrow> support_bit q 1 b = Inr (bit (ebx q) (unat b))"
  by (simp add: support_bit_def masked_bit_def reg_at_def bit_iff_and_push_bit_not_eq_0 word_less_nat_alt)

text \<open>
  Claim C4. On every processor \<^verbatim>\<open>SupportVMX\<close> returns what \<^verbatim>\<open>SupportAES\<close> returns, with the
  same queries: both test bit 25 of register C at selector 1 (behind the maximum reported
  at selector 0), not bit 5.
\<close>

theorem SupportVMX_is_SupportAES:
  "SupportVMX p = SupportAES p \<and>
   SupportVMX p =
     (if 1 \<le> sint (eax (cpuid_insn p 0 0))
      then (Inr (bit (ecx (cpuid_insn p 1 0)) 25), [Cpuid 0 0, Cpuid 1 0])
      else (Inr False, [Cpuid 0 0]))"
  by (simp add: SupportVMX_def SupportAES_def CheckFeature_def support_bit_ecx)

section \<open>Properties of the Microsoft-specific decoder\<close>

subsection \<open>The loops\<close>

lemma sint_succ: "sint (i :: u32) < 2147483647 \<Longrightarrow> sint (i + 1) = sint i + 1"
proof -
  assume a: "sint i < 2147483647"
  have lo: "- (2 ^ 31) \<le> sint i" using sint_ge [of i] by simp
  have "sint (i + 1) = signed_take_bit 31 (sint i + 1)"
    by (simp add: sint_word_add)
  also have "\<dots> = sint i + 1"
    by (rule signed_take_bit_int_eq_self) (use a lo in simp_all)
  finally show ?thesis .
qed

lemma sint_le_max: "sint (i :: u32) \<le> 2147483647"
  using sint_lt [of i] by simp

lemma query_loop_InrD:
  "query_loop room p i n vec tr = (Inr v, t) \<Longrightarrow>
   v = vec @ map (\<lambda>k. cpuid_insn p (word_of_int k) 0) [sint i..sint n] \<and>
   t = tr @ map (\<lambda>k. Cpuid (word_of_int k) 0) [sint i..sint n]"
proof (induction room p i n vec tr rule: query_loop.induct)
  case (1 room p i n vec tr)
  show ?case
  proof (cases "sint i \<le> sint n")
    case False
    with "1.prems" show ?thesis by (simp add: query_loop.simps)
  next
    case le: True
    with "1.prems" have room: "length vec < room" and top: "sint i \<noteq> 2147483647"
      by (auto simp: query_loop.simps [of room p i n vec tr] split: if_splits)
    from top sint_le_max [of i] have s: "sint (i + 1) = sint i + 1" by (simp add: sint_succ)
    have u: "[sint i..sint n] = sint i # [sint i + 1..sint n]" using le by (simp add: upto_rec1)
    from "1.prems" le room top
    have "query_loop room p (i + 1) n (vec @ [cpuid_insn p i 0]) (tr @ [Cpuid i 0]) = (Inr v, t)"
      by (simp add: query_loop.simps [of room p i n vec tr])
    from "1.IH" [OF le room top this] show ?thesis by (simp add: s u)
  qed
qed

lemma query_loop_returns:
  "sint n < 2147483647 \<Longrightarrow> length vec + nat (sint n - sint i + 1) \<le> room \<Longrightarrow>
   query_loop room p i n vec tr =
     (Inr (vec @ map (\<lambda>k. cpuid_insn p (word_of_int k) 0) [sint i..sint n]),
      tr @ map (\<lambda>k. Cpuid (word_of_int k) 0) [sint i..sint n])"
proof (induction room p i n vec tr rule: query_loop.induct)
  case (1 room p i n vec tr)
  show ?case
  proof (cases "sint i \<le> sint n")
    case False
    then show ?thesis by (simp add: query_loop.simps [of room p i n vec tr])
  next
    case le: True
    with "1.prems" have room: "length vec < room" by linarith
    from le "1.prems"(1) have top: "sint i \<noteq> 2147483647" by linarith
    from top sint_le_max [of i] have s: "sint (i + 1) = sint i + 1" by (simp add: sint_succ)
    have u: "[sint i..sint n] = sint i # [sint i + 1..sint n]" using le by (simp add: upto_rec1)
    have fit: "length (vec @ [cpuid_insn p i 0]) + nat (sint n - sint (i + 1) + 1) \<le> room"
      using "1.prems"(2) le s by simp
    from "1.IH" [OF le room top "1.prems"(1) fit] le room top show ?thesis
      by (simp add: query_loop.simps [of room p i n vec tr] s u)
  qed
qed

lemma query_loop_bad_alloc:
  "sint i \<le> sint n \<Longrightarrow> sint n < 2147483647 \<Longrightarrow> room < length vec + nat (sint n - sint i + 1) \<Longrightarrow>
   fst (query_loop room p i n vec tr) = Inl Bad_Alloc"
proof (induction room p i n vec tr rule: query_loop.induct)
  case (1 room p i n vec tr)
  show ?case
  proof (cases "length vec < room")
    case False
    with "1.prems"(1) show ?thesis by (simp add: query_loop.simps [of room p i n vec tr])
  next
    case room: True
    from "1.prems" have top: "sint i \<noteq> 2147483647" by linarith
    from top sint_le_max [of i] have s: "sint (i + 1) = sint i + 1" by (simp add: sint_succ)
    from room "1.prems"(3) have more: "sint (i + 1) \<le> sint n" using s "1.prems"(1) by linarith
    have short: "room < length (vec @ [cpuid_insn p i 0]) + nat (sint n - sint (i + 1) + 1)"
      using "1.prems"(3) "1.prems"(1) s by simp
    from "1.IH" [OF "1.prems"(1) room top more "1.prems"(2) short] "1.prems"(1) room top
    show ?thesis by (simp add: query_loop.simps [of room p i n vec tr])
  qed
qed

lemma vec_at_map_upto:
  "a + int k \<le> b \<Longrightarrow> vec_at (map f [a..b]) k = Inr (f (a + int k))"
  by (simp add: vec_at_def)

lemma vec_at_empty: "vec_at [] k = Inl Out_Of_Bounds"
  by (simp add: vec_at_def)

subsection \<open>Signed and unsigned readings of a selector\<close>

lemma sint_shift_mod:
  fixes w :: u32
  shows "sint w = (uint w + 2147483648) mod 4294967296 - 2147483648"
  by (simp add: sint_uint signed_take_bit_eq_take_bit_shift take_bit_eq_mod)

lemma sint_of_high:
  fixes w :: u32
  assumes "0x80000000 \<le> w"
  shows "sint w = uint w - 4294967296"
proof -
  from assms have lo: "2147483648 \<le> uint w" by (simp add: word_le_def)
  have hi: "uint w < 4294967296" using uint_lt2p [of w] by simp
  have e: "uint w + 2147483648 = (uint w - 2147483648) + 4294967296"
    by simp
  have "(uint w + 2147483648) mod 4294967296 = (uint w - 2147483648) mod 4294967296"
    by (simp only: e mod_add_self2)
  also have "\<dots> = uint w - 2147483648"
    using lo hi by (simp add: mod_pos_pos_trivial)
  finally show ?thesis by (simp add: sint_shift_mod)
qed

lemma ext_guard_signed:
  fixes nx c :: u32
  assumes "c \<le> nx" and "0x80000000 \<le> c"
  shows "uint c - 4294967296 \<le> sint nx \<and> sint nx < 0"
proof -
  from assms have h: "0x80000000 \<le> nx" by simp
  from assms(1) have "uint c \<le> uint nx" by (simp add: word_le_def)
  moreover have "uint nx < 4294967296" using uint_lt2p [of nx] by simp
  ultimately show ?thesis using sint_of_high [OF h] by simp
qed

lemma ext_selectors:
  "(- 2147483647 :: u32) = 0x80000001" "(- 2147483646 :: u32) = 0x80000002"
  "(- 2147483645 :: u32) = 0x80000003" "(- 2147483644 :: u32) = 0x80000004"
  "(- 2147483648 :: u32) = 0x80000000"
  by simp_all

subsection \<open>The constructor in closed form\<close>

lemma load_f_1_std:
  "0 \<le> sint n \<Longrightarrow>
   load_f_1 n (map (\<lambda>k. cpuid_insn p (word_of_int k) 0) [0..sint n]) =
     Inr (if 1 \<le> sint n then (ecx (cpuid_insn p 1 0), edx (cpuid_insn p 1 0)) else (0, 0))"
  using vec_at_map_upto [of 0 1 "sint n" "\<lambda>k. cpuid_insn p (word_of_int k) 0"]
  by (simp add: load_f_1_def)

lemma load_f_7_std:
  "0 \<le> sint n \<Longrightarrow>
   load_f_7 n (map (\<lambda>k. cpuid_insn p (word_of_int k) 0) [0..sint n]) =
     Inr (if 7 \<le> sint n then (ebx (cpuid_insn p 7 0), ecx (cpuid_insn p 7 0)) else (0, 0))"
  using vec_at_map_upto [of 0 7 "sint n" "\<lambda>k. cpuid_insn p (word_of_int k) 0"]
  by (simp add: load_f_7_def)

lemma load_f_81_ext:
  "load_f_81 nx (map (\<lambda>k. cpuid_insn p (word_of_int k) 0) [- 2147483648..sint nx]) =
     Inr (if 0x80000001 \<le> nx then (ecx (cpuid_insn p 0x80000001 0), edx (cpuid_insn p 0x80000001 0))
          else (0, 0))"
proof (cases "0x80000001 \<le> nx")
  case True
  then have "- 2147483648 + int 1 \<le> sint nx" using ext_guard_signed [of "0x80000001" nx] by simp
  then show ?thesis
    using True by (simp add: load_f_81_def vec_at_map_upto ext_selectors)
next
  case False
  then show ?thesis by (simp add: load_f_81_def)
qed

lemma load_brand_ext:
  "load_brand nx (map (\<lambda>k. cpuid_insn p (word_of_int k) 0) [- 2147483648..sint nx]) =
     Inr (if 0x80000004 \<le> nx
          then brand_string (cpuid_insn p 0x80000002 0) (cpuid_insn p 0x80000003 0)
                 (cpuid_insn p 0x80000004 0)
          else [])"
proof (cases "0x80000004 \<le> nx")
  case True
  then have "- 2147483648 + int 4 \<le> sint nx" using ext_guard_signed [of "0x80000004" nx] by simp
  then have "- 2147483648 + int 2 \<le> sint nx" "- 2147483648 + int 3 \<le> sint nx"
    "- 2147483648 + int 4 \<le> sint nx" by simp_all
  then show ?thesis
    using True by (simp add: load_brand_def vec_at_map_upto ext_selectors)
next
  case False
  then show ?thesis by (simp add: load_brand_def)
qed


lemma CPU_Rep_returns:
  assumes "0 \<le> sint (eax (cpuid_insn p 0 0))"
    and "sint (eax (cpuid_insn p 0 0)) < 2147483647"
    and "nat (sint (eax (cpuid_insn p 0 0)) + 1) \<le> room"
    and "sint (eax (cpuid_insn p 0x80000000 0)) < 2147483647"
    and "nat (sint (eax (cpuid_insn p 0x80000000 0)) + 2147483649) \<le> room"
  shows "CPU_Rep room p =
    (Inr \<lparr>nIds = eax (cpuid_insn p 0 0),
          nExIds = eax (cpuid_insn p 0x80000000 0),
          vendor = vendor_string (cpuid_insn p 0 0),
          brand = (if 0x80000004 \<le> eax (cpuid_insn p 0x80000000 0)
                   then brand_string (cpuid_insn p 0x80000002 0) (cpuid_insn p 0x80000003 0)
                          (cpuid_insn p 0x80000004 0)
                   else []),
          isIntel = (vendor_string (cpuid_insn p 0 0) = ''GenuineIntel''),
          isAMD = (vendor_string (cpuid_insn p 0 0) = ''AuthenticAMD''),
          f_1_ECX = (if 1 \<le> sint (eax (cpuid_insn p 0 0)) then ecx (cpuid_insn p 1 0) else 0),
          f_1_EDX = (if 1 \<le> sint (eax (cpuid_insn p 0 0)) then edx (cpuid_insn p 1 0) else 0),
          f_7_EBX = (if 7 \<le> sint (eax (cpuid_insn p 0 0)) then ebx (cpuid_insn p 7 0) else 0),
          f_7_ECX = (if 7 \<le> sint (eax (cpuid_insn p 0 0)) then ecx (cpuid_insn p 7 0) else 0),
          f_81_ECX = (if 0x80000001 \<le> eax (cpuid_insn p 0x80000000 0)
                      then ecx (cpuid_insn p 0x80000001 0) else 0),
          f_81_EDX = (if 0x80000001 \<le> eax (cpuid_insn p 0x80000000 0)
                      then edx (cpuid_insn p 0x80000001 0) else 0),
          data = map (\<lambda>k. cpuid_insn p (word_of_int k) 0) [0..sint (eax (cpuid_insn p 0 0))],
          extdata = map (\<lambda>k. cpuid_insn p (word_of_int k) 0)
                      [- 2147483648..sint (eax (cpuid_insn p 0x80000000 0))]\<rparr>,
     Cpuid 0 0 # map (\<lambda>k. Cpuid (word_of_int k) 0) [0..sint (eax (cpuid_insn p 0 0))] @
     Cpuid 0x80000000 0 #
       map (\<lambda>k. Cpuid (word_of_int k) 0) [- 2147483648..sint (eax (cpuid_insn p 0x80000000 0))])"
proof -
  have v0: "vec_at (map (\<lambda>k. cpuid_insn p (word_of_int k) 0) [0..sint (eax (cpuid_insn p 0 0))]) 0 =
      Inr (cpuid_insn p 0 0)"
    using assms(1) vec_at_map_upto [of 0 0 "sint (eax (cpuid_insn p 0 0))"
        "\<lambda>k. cpuid_insn p (word_of_int k) 0"] by simp
  have amd: "\<And>v. (v \<noteq> ''GenuineIntel'' \<and> v = ''AuthenticAMD'') = (v = ''AuthenticAMD'')"
    by auto
  have l1: "query_loop room p 0 (eax (cpuid_insn p 0 0)) [] [Cpuid 0 0] =
      (Inr (map (\<lambda>k. cpuid_insn p (word_of_int k) 0) [0..sint (eax (cpuid_insn p 0 0))]),
       Cpuid 0 0 # map (\<lambda>k. Cpuid (word_of_int k) 0) [0..sint (eax (cpuid_insn p 0 0))])"
    using query_loop_returns [OF assms(2), of "[]" 0 room p "[Cpuid 0 0]"] assms(3) by simp
  have l2: "query_loop room p 0x80000000 (eax (cpuid_insn p 0x80000000 0)) [] tr =
      (Inr (map (\<lambda>k. cpuid_insn p (word_of_int k) 0)
              [- 2147483648..sint (eax (cpuid_insn p 0x80000000 0))]),
       tr @ map (\<lambda>k. Cpuid (word_of_int k) 0)
              [- 2147483648..sint (eax (cpuid_insn p 0x80000000 0))])" for tr
    using query_loop_returns [OF assms(4), of "[]" "0x80000000" room p tr] assms(5) by simp
  show ?thesis
    unfolding CPU_Rep_def Let_def
    by (simp add: l1 l2 v0 amd load_f_1_std [OF assms(1)] load_f_7_std [OF assms(1)]
        load_f_81_ext load_brand_ext)
qed

lemma CPU_Rep_fields:
  assumes "CPU_Rep room p = (Inr r, t)"
  shows "nIds r = eax (cpuid_insn p 0 0)"
    and "nExIds r = eax (cpuid_insn p 0x80000000 0)"
    and "vendor r = vendor_string (cpuid_insn p 0 0)"
    and "isIntel r \<longleftrightarrow> vendor r = ''GenuineIntel''"
    and "isAMD r \<longleftrightarrow> vendor r = ''AuthenticAMD''"
    and "f_1_ECX r = (if 1 \<le> sint (nIds r) then ecx (cpuid_insn p 1 0) else 0)"
    and "f_1_EDX r = (if 1 \<le> sint (nIds r) then edx (cpuid_insn p 1 0) else 0)"
    and "f_7_EBX r = (if 7 \<le> sint (nIds r) then ebx (cpuid_insn p 7 0) else 0)"
    and "f_7_ECX r = (if 7 \<le> sint (nIds r) then ecx (cpuid_insn p 7 0) else 0)"
    and "f_81_ECX r = (if 0x80000001 \<le> nExIds r then ecx (cpuid_insn p 0x80000001 0) else 0)"
    and "f_81_EDX r = (if 0x80000001 \<le> nExIds r then edx (cpuid_insn p 0x80000001 0) else 0)"
    and "0 \<le> sint (nIds r)"
proof -
  define n where "n = eax (cpuid_insn p 0 0)"
  define nx where "nx = eax (cpuid_insn p 0x80000000 0)"
  from assms obtain std t1 d0 c1 d1 b7 c7 ext c81 d81 br where
    l1: "query_loop room p 0 n [] [Cpuid 0 0] = (Inr std, t1)"
    and v0: "vec_at std 0 = Inr d0"
    and f1: "load_f_1 n std = Inr (c1, d1)"
    and f7: "load_f_7 n std = Inr (b7, c7)"
    and l2: "query_loop room p 0x80000000 nx [] (t1 @ [Cpuid 0x80000000 0]) = (Inr ext, t)"
    and f81: "load_f_81 nx ext = Inr (c81, d81)"
    and r: "r = \<lparr>nIds = n, nExIds = nx, vendor = vendor_string d0, brand = br,
                isIntel = (vendor_string d0 = ''GenuineIntel''),
                isAMD = (vendor_string d0 \<noteq> ''GenuineIntel'' \<and> vendor_string d0 = ''AuthenticAMD''),
                f_1_ECX = c1, f_1_EDX = d1, f_7_EBX = b7, f_7_ECX = c7,
                f_81_ECX = c81, f_81_EDX = d81, data = std, extdata = ext\<rparr>"
    unfolding CPU_Rep_def Let_def n_def [symmetric] nx_def [symmetric]
    by (auto split: prod.splits sum.splits)
  from query_loop_InrD [OF l1]
  have std: "std = map (\<lambda>k. cpuid_insn p (word_of_int k) 0) [0..sint n]" by simp
  from query_loop_InrD [OF l2]
  have ext: "ext = map (\<lambda>k. cpuid_insn p (word_of_int k) 0) [- 2147483648..sint nx]" by simp
  have pos: "0 \<le> sint n"
  proof (rule ccontr)
    assume "\<not> 0 \<le> sint n"
    then have "std = []" by (simp add: std)
    with v0 show False by (simp add: vec_at_empty)
  qed
  from v0 pos have d0: "d0 = cpuid_insn p 0 0"
    using vec_at_map_upto [of 0 0 "sint n" "\<lambda>k. cpuid_insn p (word_of_int k) 0"]
    by (simp add: std)
  from f1 have c1d1: "(c1, d1) = (if 1 \<le> sint n then (ecx (cpuid_insn p 1 0), edx (cpuid_insn p 1 0)) else (0, 0))"
    unfolding std load_f_1_std [OF pos] by simp
  from f7 have b7c7: "(b7, c7) = (if 7 \<le> sint n then (ebx (cpuid_insn p 7 0), ecx (cpuid_insn p 7 0)) else (0, 0))"
    unfolding std load_f_7_std [OF pos] by simp
  from f81 have c81d81: "(c81, d81) =
      (if 0x80000001 \<le> nx then (ecx (cpuid_insn p 0x80000001 0), edx (cpuid_insn p 0x80000001 0))
       else (0, 0))"
    unfolding ext load_f_81_ext by simp
  show "nIds r = eax (cpuid_insn p 0 0)" by (simp add: r n_def)
  show "nExIds r = eax (cpuid_insn p 0x80000000 0)" by (simp add: r nx_def)
  show "vendor r = vendor_string (cpuid_insn p 0 0)" by (simp add: r d0)
  show "isIntel r \<longleftrightarrow> vendor r = ''GenuineIntel''" by (simp add: r)
  show "isAMD r \<longleftrightarrow> vendor r = ''AuthenticAMD''" by (auto simp: r)
  show "f_1_ECX r = (if 1 \<le> sint (nIds r) then ecx (cpuid_insn p 1 0) else 0)"
    using c1d1 by (simp add: r split: if_splits)
  show "f_1_EDX r = (if 1 \<le> sint (nIds r) then edx (cpuid_insn p 1 0) else 0)"
    using c1d1 by (simp add: r split: if_splits)
  show "f_7_EBX r = (if 7 \<le> sint (nIds r) then ebx (cpuid_insn p 7 0) else 0)"
    using b7c7 by (simp add: r split: if_splits)
  show "f_7_ECX r = (if 7 \<le> sint (nIds r) then ecx (cpuid_insn p 7 0) else 0)"
    using b7c7 by (simp add: r split: if_splits)
  show "f_81_ECX r = (if 0x80000001 \<le> nExIds r then ecx (cpuid_insn p 0x80000001 0) else 0)"
    using c81d81 by (simp add: r split: if_splits)
  show "f_81_EDX r = (if 0x80000001 \<le> nExIds r then edx (cpuid_insn p 0x80000001 0) else 0)"
    using c81d81 by (simp add: r split: if_splits)
  show "0 \<le> sint (nIds r)" by (simp add: r pos)
qed

subsection \<open>Vendor gating and the vendor string\<close>

text \<open>
  Claim C6. On every processor and with every amount of memory for which the constructor
  returns, each of the
  vendor-gated getters (HLE, RTM, LZCNT, SYSCALL and RDTSCP behind GenuineIntel; ABM,
  SSE4a, XOP, TBM, MMXEXT, 3DNOWEXT and 3DNOW behind AuthenticAMD) is true exactly when the
  vendor string assembled from selector 0 is the expected one and the feature's bit is
  set in the decoder's bit set: false under any other vendor string whatever the bit,
  the bit's value under the expected one. The bit set is the register of the processor
  whenever the selector is within the reported maximum.
\<close>

theorem vendor_gated_features:
  assumes "CPU_Rep room p = (Inr r, t)"
  shows "Vendor r = vendor_string (cpuid_insn p 0 0) \<and>
    (HLE r \<longleftrightarrow> Vendor r = ''GenuineIntel'' \<and> bit (f_7_EBX r) 4) \<and>
    (RTM r \<longleftrightarrow> Vendor r = ''GenuineIntel'' \<and> bit (f_7_EBX r) 11) \<and>
    (LZCNT r \<longleftrightarrow> Vendor r = ''GenuineIntel'' \<and> bit (f_81_ECX r) 5) \<and>
    (SYSCALL r \<longleftrightarrow> Vendor r = ''GenuineIntel'' \<and> bit (f_81_EDX r) 11) \<and>
    (RDTSCP r \<longleftrightarrow> Vendor r = ''GenuineIntel'' \<and> bit (f_81_EDX r) 27) \<and>
    (ABM r \<longleftrightarrow> Vendor r = ''AuthenticAMD'' \<and> bit (f_81_ECX r) 5) \<and>
    (SSE4a r \<longleftrightarrow> Vendor r = ''AuthenticAMD'' \<and> bit (f_81_ECX r) 6) \<and>
    (XOP r \<longleftrightarrow> Vendor r = ''AuthenticAMD'' \<and> bit (f_81_ECX r) 11) \<and>
    (TBM r \<longleftrightarrow> Vendor r = ''AuthenticAMD'' \<and> bit (f_81_ECX r) 21) \<and>
    (MMXEXT r \<longleftrightarrow> Vendor r = ''AuthenticAMD'' \<and> bit (f_81_EDX r) 22) \<and>
    (X_3DNOWEXT r \<longleftrightarrow> Vendor r = ''AuthenticAMD'' \<and> bit (f_81_EDX r) 30) \<and>
    (X_3DNOW r \<longleftrightarrow> Vendor r = ''AuthenticAMD'' \<and> bit (f_81_EDX r) 31) \<and>
    (7 \<le> sint (eax (cpuid_insn p 0 0)) \<longrightarrow> f_7_EBX r = ebx (cpuid_insn p 7 0)) \<and>
    (0x80000001 \<le> eax (cpuid_insn p 0x80000000 0) \<longrightarrow>
       f_81_ECX r = ecx (cpuid_insn p 0x80000001 0) \<and>
       f_81_EDX r = edx (cpuid_insn p 0x80000001 0))"
proof -
  note f = CPU_Rep_fields [OF assms]
  have v: "Vendor r = vendor_string (cpuid_insn p 0 0)"
    by (simp add: Vendor_def f(3))
  have i: "isIntel r \<longleftrightarrow> Vendor r = ''GenuineIntel''" by (simp add: Vendor_def f(4))
  have a: "isAMD r \<longleftrightarrow> Vendor r = ''AuthenticAMD''" by (simp add: Vendor_def f(5))
  have b7: "7 \<le> sint (eax (cpuid_insn p 0 0)) \<longrightarrow> f_7_EBX r = ebx (cpuid_insn p 7 0)"
    using f(8) by (simp add: f(1))
  have b81: "0x80000001 \<le> eax (cpuid_insn p 0x80000000 0) \<longrightarrow>
       f_81_ECX r = ecx (cpuid_insn p 0x80000001 0) \<and>
       f_81_EDX r = edx (cpuid_insn p 0x80000001 0)"
    using f(10) f(11) by (simp add: f(2))
  show ?thesis
    unfolding HLE_def RTM_def LZCNT_def SYSCALL_def RDTSCP_def ABM_def SSE4a_def XOP_def TBM_def
      MMXEXT_def X_3DNOWEXT_def X_3DNOW_def i a
    using v b7 b81 by simp
qed

lemma intel_stub_vendor: "vendor_string (cpuid_insn intel_stub 0 0) = ''GenuineIntel''"
  by (simp add: intel_stub_def vendor_string_def vendor_buffer_def c_string_def le_bytes_def
      char_of_def bit_Suc_0_iff)

lemma intel_stub_returns: "\<exists>r t. CPU_Rep room_x86 intel_stub = (Inr r, t)"
proof -
  have "0 \<le> sint (eax (cpuid_insn intel_stub 0 0))"
    "sint (eax (cpuid_insn intel_stub 0 0)) < 2147483647"
    "nat (sint (eax (cpuid_insn intel_stub 0 0)) + 1) \<le> room_x86"
    "sint (eax (cpuid_insn intel_stub 0x80000000 0)) < 2147483647"
    "nat (sint (eax (cpuid_insn intel_stub 0x80000000 0)) + 2147483649) \<le> room_x86"
    by (simp_all add: intel_stub_def room_x86_def)
  from CPU_Rep_returns [OF this] show ?thesis by blast
qed

theorem vendor_gated_features_witness:
  "\<exists>r t. CPU_Rep room_x86 intel_stub = (Inr r, t) \<and> Vendor r = ''GenuineIntel'' \<and>
     bit (ecx (cpuid_insn intel_stub 0x80000001 0)) 5 \<and> LZCNT r \<and> \<not> ABM r \<and>
     \<not> bit (ebx (cpuid_insn intel_stub 7 0)) 4 \<and> \<not> HLE r"
proof -
  from intel_stub_returns obtain r t where rt: "CPU_Rep room_x86 intel_stub = (Inr r, t)" by blast
  note g = vendor_gated_features [OF rt]
  have m: "7 \<le> sint (eax (cpuid_insn intel_stub 0 0))"
    "0x80000001 \<le> eax (cpuid_insn intel_stub 0x80000000 0)"
    by (simp_all add: intel_stub_def)
  from g m have b: "f_7_EBX r = ebx (cpuid_insn intel_stub 7 0)"
    "f_81_ECX r = ecx (cpuid_insn intel_stub 0x80000001 0)" by blast+
  have c: "bit (ecx (cpuid_insn intel_stub 0x80000001 0)) 5"
    "\<not> bit (ebx (cpuid_insn intel_stub 7 0)) 4"
    by (simp_all add: intel_stub_def)
  from g have v: "Vendor r = ''GenuineIntel''" by (simp only: intel_stub_vendor)
  from g have l: "LZCNT r \<longleftrightarrow> Vendor r = ''GenuineIntel'' \<and> bit (f_81_ECX r) 5"
    and a: "ABM r \<longleftrightarrow> Vendor r = ''AuthenticAMD'' \<and> bit (f_81_ECX r) 5"
    and h: "HLE r \<longleftrightarrow> Vendor r = ''GenuineIntel'' \<and> bit (f_7_EBX r) 4" by blast+
  from l a h v b c have "LZCNT r \<and> \<not> ABM r \<and> \<not> HLE r" by simp
  with rt v c show ?thesis by blast
qed

lemma c_string_padding: "c_string (xs @ replicate n 0) = c_string xs"
  by (induction xs) (simp_all add: c_string_def takeWhile_replicate)

lemma le_bytes_rebuild:
  fixes w :: u32
  shows "w = ucast (ucast w :: 8 word) OR push_bit 8 (ucast (ucast (drop_bit 8 w) :: 8 word)) OR
       push_bit 16 (ucast (ucast (drop_bit 16 w) :: 8 word)) OR
       push_bit 24 (ucast (ucast (drop_bit 24 w) :: 8 word))"
proof (rule bit_word_eqI)
  fix n :: nat
  assume "n < LENGTH(32)"
  then have n: "n < 32" by simp
  consider "n < 8" | "8 \<le> n" "n < 16" | "16 \<le> n" "n < 24" | "24 \<le> n" "n < 32"
    using n by linarith
  then show "bit w n \<longleftrightarrow>
      bit (ucast (ucast w :: 8 word) OR push_bit 8 (ucast (ucast (drop_bit 8 w) :: 8 word)) OR
       push_bit 16 (ucast (ucast (drop_bit 16 w) :: 8 word)) OR
       push_bit 24 (ucast (ucast (drop_bit 24 w) :: 8 word)) :: u32) n"
    by cases (auto simp: bit_simps)
qed

text \<open>
  Claim C7. The vendor string is the C string of twelve bytes: the four bytes of
  register B, then those of register D, then those of register C of selector 0, each
  register least significant byte first (a register is rebuilt from its four bytes by
  shifting them by 0, 8, 16 and 24 bits). For B = 0x756e6547, D = 0x49656e69 and
  C = 0x6c65746e the string is "GenuineIntel". The string the constructor stores is
  the one assembled from the answer to selector 0.
\<close>

theorem vendor_string_layout:
  "vendor_string q = c_string (le_bytes (ebx q) @ le_bytes (edx q) @ le_bytes (ecx q)) \<and>
   length (le_bytes (ebx q) @ le_bytes (edx q) @ le_bytes (ecx q)) = 12 \<and>
   w = ucast (le_bytes w ! 0) OR push_bit 8 (ucast (le_bytes w ! 1)) OR
       push_bit 16 (ucast (le_bytes w ! 2)) OR push_bit 24 (ucast (le_bytes w ! 3)) \<and>
   vendor_string \<lparr>eax = a, ebx = 0x756e6547, ecx = 0x6c65746e, edx = 0x49656e69\<rparr> = ''GenuineIntel'' \<and>
   (CPU_Rep room p = (Inr r, t) \<longrightarrow> Vendor r = vendor_string (cpuid_insn p 0 0))"
proof -
  have 1: "vendor_string q = c_string (le_bytes (ebx q) @ le_bytes (edx q) @ le_bytes (ecx q))"
    using c_string_padding [of "le_bytes (ebx q) @ le_bytes (edx q) @ le_bytes (ecx q)" 20]
    by (simp add: vendor_string_def vendor_buffer_def)
  have 2: "length (le_bytes (ebx q) @ le_bytes (edx q) @ le_bytes (ecx q)) = 12"
    by (simp add: le_bytes_def)
  have 3: "w = ucast (le_bytes w ! 0) OR push_bit 8 (ucast (le_bytes w ! 1)) OR
       push_bit 16 (ucast (le_bytes w ! 2)) OR push_bit 24 (ucast (le_bytes w ! 3))"
    using le_bytes_rebuild [of w] by (simp add: le_bytes_def)
  have 4: "vendor_string \<lparr>eax = a, ebx = 0x756e6547, ecx = 0x6c65746e, edx = 0x49656e69\<rparr> = ''GenuineIntel''"
    by (simp add: vendor_string_def vendor_buffer_def c_string_def le_bytes_def
      char_of_def bit_Suc_0_iff)
  have 5: "CPU_Rep room p = (Inr r, t) \<longrightarrow> Vendor r = vendor_string (cpuid_insn p 0 0)"
    by (simp add: Vendor_def CPU_Rep_fields(3))
  from 1 2 3 4 5 show ?thesis by blast
qed

theorem vendor_string_layout_witness:
  "\<exists>r t. CPU_Rep room_x86 intel_stub = (Inr r, t) \<and> Vendor r = ''GenuineIntel'' \<and>
     ebx (cpuid_insn intel_stub 0 0) = 0x756e6547 \<and> edx (cpuid_insn intel_stub 0 0) = 0x49656e69 \<and>
     ecx (cpuid_insn intel_stub 0 0) = 0x6c65746e"
proof -
  from intel_stub_returns obtain r t where rt: "CPU_Rep room_x86 intel_stub = (Inr r, t)" by blast
  have q: "cpuid_insn intel_stub 0 0 = \<lparr>eax = 0x16, ebx = 0x756e6547, ecx = 0x6c65746e, edx = 0x49656e69\<rparr>"
    by (simp add: intel_stub_def)
  from vendor_string_layout [of "cpuid_insn intel_stub 0 0" 0 0 room_x86 intel_stub r t] rt
  have "Vendor r = vendor_string (cpuid_insn intel_stub 0 0)" by blast
  then have "Vendor r = ''GenuineIntel''" by (simp only: intel_stub_vendor)
  with rt q show ?thesis by simp
qed

section \<open>A selector and the reported maximum\<close>

lemma SupportAVX2_end_to_end:
  assumes "eax (cpuid_insn p 0 0) = 0x16" and "bit (ebx (cpuid_insn p 7 0)) 5"
  shows "SupportAVX2 p = (Inr True, [Cpuid 0 0, Cpuid 7 0])"
  using assms by (simp add: SupportAVX2_def CheckFeature_def support_bit_ebx)

lemma CPU_Rep_bad_alloc_ext:
  assumes "0 \<le> sint (eax (cpuid_insn p 0 0))"
    and "sint (eax (cpuid_insn p 0 0)) < 2147483647"
    and "nat (sint (eax (cpuid_insn p 0 0)) + 1) \<le> room"
    and "sint (eax (cpuid_insn p 0x80000000 0)) < 2147483647"
    and "room < nat (sint (eax (cpuid_insn p 0x80000000 0)) + 2147483649)"
  shows "fst (CPU_Rep room p) = Inl Bad_Alloc"
proof -
  have v0: "vec_at (map (\<lambda>k. cpuid_insn p (word_of_int k) 0) [0..sint (eax (cpuid_insn p 0 0))]) 0 =
      Inr (cpuid_insn p 0 0)"
    using assms(1) vec_at_map_upto [of 0 0 "sint (eax (cpuid_insn p 0 0))"
        "\<lambda>k. cpuid_insn p (word_of_int k) 0"] by simp
  have l1: "query_loop room p 0 (eax (cpuid_insn p 0 0)) [] [Cpuid 0 0] =
      (Inr (map (\<lambda>k. cpuid_insn p (word_of_int k) 0) [0..sint (eax (cpuid_insn p 0 0))]),
       Cpuid 0 0 # map (\<lambda>k. Cpuid (word_of_int k) 0) [0..sint (eax (cpuid_insn p 0 0))])"
    using query_loop_returns [OF assms(2), of "[]" 0 room p "[Cpuid 0 0]"] assms(3) by simp
  have lo: "sint (0x80000000 :: u32) \<le> sint (eax (cpuid_insn p 0x80000000 0))"
    using sint_ge [of "eax (cpuid_insn p 0x80000000 0)"] by simp
  have short: "room < length ([] :: quad list) +
      nat (sint (eax (cpuid_insn p 0x80000000 0)) - sint (0x80000000 :: u32) + 1)"
    using assms(5) by simp
  have "fst (query_loop room p 0x80000000 (eax (cpuid_insn p 0x80000000 0)) [] tr) = Inl Bad_Alloc"
    for tr
    by (rule query_loop_bad_alloc [OF lo assms(4) short])
  then have bad: "e = Inl Bad_Alloc"
    if "query_loop room p 0x80000000 (eax (cpuid_insn p 0x80000000 0)) [] tr = (e, t3)"
    for tr e t3
    using that by (metis fst_conv)
  obtain c1 d1 where f1: "load_f_1 (eax (cpuid_insn p 0 0))
      (map (\<lambda>k. cpuid_insn p (word_of_int k) 0) [0..sint (eax (cpuid_insn p 0 0))]) = Inr (c1, d1)"
    using load_f_1_std [OF assms(1), of p] by (metis surj_pair)
  obtain b7 c7 where f7: "load_f_7 (eax (cpuid_insn p 0 0))
      (map (\<lambda>k. cpuid_insn p (word_of_int k) 0) [0..sint (eax (cpuid_insn p 0 0))]) = Inr (b7, c7)"
    using load_f_7_std [OF assms(1), of p] by (metis surj_pair)
  show ?thesis
    unfolding CPU_Rep_def Let_def
    by (auto simp: l1 v0 f1 f7 split: prod.splits sum.splits dest: bad)
qed

text \<open>
  Claim C8. On the stubbed invoker of the scenario, which answers selector 0 with 0x16 in
  register A, selector 7 with bit 5 of register B and everything else with zeros,
  \<^verbatim>\<open>SupportAVX2\<close> of the function library returns true, but the constructor of the
  Microsoft-specific decoder reports nothing: the reported extended maximum is 0, the
  loop of lines 455 to 459 counts from \<^verbatim>\<open>INT_MIN\<close> up to it, and the vector of a 32-bit
  build cannot take the 2147483649 quads that this asks for.
\<close>

theorem avx2_scenario_bad_alloc:
  "eax (cpuid_insn avx2_only_stub 0 0) = 0x16 \<and>
   bit (ebx (cpuid_insn avx2_only_stub 7 0)) 5 \<and>
   SupportAVX2 avx2_only_stub = (Inr True, [Cpuid 0 0, Cpuid 7 0]) \<and>
   fst (CPU_Rep room_x86 avx2_only_stub) = Inl Bad_Alloc"
proof -
  have a: "eax (cpuid_insn avx2_only_stub 0 0) = 0x16" by (simp add: avx2_only_stub_def)
  have b: "bit (ebx (cpuid_insn avx2_only_stub 7 0)) 5" by (simp add: avx2_only_stub_def)
  have "0 \<le> sint (eax (cpuid_insn avx2_only_stub 0 0))"
    "sint (eax (cpuid_insn avx2_only_stub 0 0)) < 2147483647"
    "nat (sint (eax (cpuid_insn avx2_only_stub 0 0)) + 1) \<le> room_x86"
    "sint (eax (cpuid_insn avx2_only_stub 0x80000000 0)) < 2147483647"
    "room_x86 < nat (sint (eax (cpuid_insn avx2_only_stub 0x80000000 0)) + 2147483649)"
    by (simp_all add: avx2_only_stub_def no_info_def room_x86_def)
  from CPU_Rep_bad_alloc_ext [OF this] SupportAVX2_end_to_end [OF a b] a b
  show ?thesis by simp
qed

lemma sint_of_low:
  fixes w :: u32
  assumes "w < 0x80000000"
  shows "sint w = uint w"
proof -
  from assms have hi: "uint w < 2147483648" by (simp add: word_less_def)
  have lo: "0 \<le> uint w" by simp
  from lo hi have "(uint w + 2147483648) mod 4294967296 = uint w + 2147483648"
    by (simp add: mod_pos_pos_trivial)
  then show ?thesis by (simp add: sint_shift_mod)
qed

lemma standard_exceeds:
  fixes f m :: u32
  assumes "0 < f" and "f < 0x80000000" and "m < f"
  shows "0 < sint f \<and> sint m < sint f"
proof -
  from assms(2,3) have "m < 0x80000000" by simp
  with assms show ?thesis
    by (simp add: sint_of_low word_less_def)
qed

lemma extended_exceeds:
  fixes f m :: u32
  assumes "0x80000000 \<le> m" and "m < f"
  shows "sint f < 0 \<and> sint m < sint f"
proof -
  from assms have "0x80000000 \<le> f" by simp
  moreover have "uint f < 4294967296" using uint_lt2p [of f] by simp
  ultimately show ?thesis
    using assms by (simp add: sint_of_high word_less_def)
qed

lemma CheckFeature_beyond_standard:
  "0 < sint functionId \<Longrightarrow> sint (eax (cpuid_insn p 0 0)) < sint functionId \<Longrightarrow>
   CheckFeature p functionId registerNumber bitNumber = (Inr False, [Cpuid 0 0])"
  by (simp add: CheckFeature_def)

lemma CheckFeature_beyond_extended:
  "sint functionId < 0 \<Longrightarrow> sint (eax (cpuid_insn p 0x80000000 0)) < sint functionId \<Longrightarrow>
   CheckFeature p functionId registerNumber bitNumber = (Inr False, [Cpuid 0x80000000 0])"
  by (simp add: CheckFeature_def)

lemma avx512f_support_trace:
  "Cpuid 7 s \<in> set (snd (avx512f_support b p a)) \<Longrightarrow> s = 0 \<and> a \<noteq> 0"
  by (auto simp: avx512f_support_def split: if_splits)

lemma avx2_support_selector:
  "Cpuid 7 s \<in> set (snd (avx2_support b p a)) \<longleftrightarrow> s = 0 \<and> HAVE_AVX2INTRIN_H b \<and> a \<noteq> 0"
  by (auto simp: avx2_support_def)

lemma avx2_support_nonzero:
  "fst (avx2_support b p a) \<noteq> 0 \<Longrightarrow> HAVE_AVX2INTRIN_H b \<and> a \<noteq> 0"
  by (auto simp: avx2_support_def split: if_splits)

lemma intel_cpu_features_selector_7:
  "Cpuid 7 s \<in> set (snd (snd (intel_cpu_features b p c))) \<longleftrightarrow>
     s = 0 \<and> eax (cpuid_insn p 0 0) \<noteq> 0 \<and> HAVE_AVX2INTRIN_H b \<and>
     fst (avx_usable b p (cpuid_insn p 1 0)) \<noteq> 0"
proof (cases "eax (cpuid_insn p 0 0) = 0")
  case True
  then show ?thesis by (simp add: intel_cpu_features_early)
next
  case nz: False
  show ?thesis
    using avx512f_support_trace [of s b p "fst (avx2_support b p (fst (avx_usable b p (cpuid_insn p 1 0))))"]
      avx2_support_nonzero [of b p "fst (avx_usable b p (cpuid_insn p 1 0))"]
    by (auto simp: intel_cpu_features_trace [OF nz] avx_usable_trace avx2_support_selector nz)
qed

lemma intel_cpu_features_avx2_value:
  assumes nz: "eax (cpuid_insn p 0 0) \<noteq> 0"
  shows "has_avx2 (fst (snd (intel_cpu_features b p c))) =
         (if HAVE_AVX2INTRIN_H b \<and> fst (avx_usable b p (cpuid_insn p 1 0)) \<noteq> 0
          then flag (ebx (cpuid_insn p 7 0)) CPUID_EBX_AVX2 else 0)"
  by (simp add: intel_cpu_features_has_avx2 [OF nz] avx2_support_def)

text \<open>
  Claim C1, as stated, fails on the cross-platform decoder: on a processor that reports 1
  as its highest standard selector and has AVX enabled, \<^verbatim>\<open>_intel_cpu_features\<close> queries
  selector 7 all the same and reports the AVX2 bit it finds there.
\<close>

theorem avx2_beyond_maximum_counterexample:
  "sint (eax (cpuid_insn low_max_stub 0 0)) < 7 \<and>
   has_avx2 (fst (snd (intel_cpu_features msvc_build low_max_stub stale_stack))) = 1 \<and>
   Cpuid 7 0 \<in> set (snd (snd (intel_cpu_features msvc_build low_max_stub stale_stack)))"
proof -
  have nz: "eax (cpuid_insn low_max_stub 0 0) \<noteq> 0" by (simp add: low_max_stub_def)
  have av: "avx_usable msvc_build low_max_stub (cpuid_insn low_max_stub 1 0) = (1, [Xgetbv 0])"
    by (simp add: avx_usable_msvc) (simp add: low_max_stub_def)
  have a2: "avx2_support msvc_build low_max_stub 1 = (1, [Cpuid 7 0])"
    by (simp add: avx2_support_def msvc_build_def flag_def CPUID_EBX_AVX2_def low_max_stub_def)
  show ?thesis
    by (simp add: intel_cpu_features_has_avx2 [OF nz] intel_cpu_features_trace [OF nz] av a2)
      (simp add: low_max_stub_def)
qed

text \<open>
  Claim C1, amended. \<^verbatim>\<open>CheckFeature\<close> answers false for a standard selector above the
  maximum that selector 0 reports, and for an extended selector above the maximum that
  selector 0x80000000 reports when that maximum is itself an extended selector; in both
  cases the only query is the one for the maximum. So with a maximum below 7
  \<^verbatim>\<open>SupportAVX2\<close> and \<^verbatim>\<open>SupportAVX512\<close> are false and selector 7 is not queried. The
  cross-platform decoder does not compare selector 7 with the reported maximum: it
  queries selector 7, with sub-selector 0, exactly when selector 0 reports a non-zero
  maximum, the build has AVX2 and the AVX check succeeds; and when the maximum is
  non-zero \<^verbatim>\<open>has_avx2\<close> is the AVX2 bit read there, and 0 without the query.
\<close>

theorem selector_beyond_maximum:
  "(0 < functionId \<and> functionId < 0x80000000 \<and> eax (cpuid_insn p 0 0) < functionId \<longrightarrow>
      CheckFeature p functionId registerNumber bitNumber = (Inr False, [Cpuid 0 0])) \<and>
   (0x80000000 \<le> eax (cpuid_insn p 0x80000000 0) \<and>
    eax (cpuid_insn p 0x80000000 0) < functionId \<longrightarrow>
      CheckFeature p functionId registerNumber bitNumber = (Inr False, [Cpuid 0x80000000 0])) \<and>
   (eax (cpuid_insn p 0 0) < 7 \<longrightarrow>
      SupportAVX2 p = (Inr False, [Cpuid 0 0]) \<and> SupportAVX512 p = (Inr False, [Cpuid 0 0])) \<and>
   (Cpuid 7 s \<in> set (snd (snd (intel_cpu_features b p c))) \<longleftrightarrow>
      s = 0 \<and> eax (cpuid_insn p 0 0) \<noteq> 0 \<and> HAVE_AVX2INTRIN_H b \<and>
      fst (avx_usable b p (cpuid_insn p 1 0)) \<noteq> 0) \<and>
   (eax (cpuid_insn p 0 0) \<noteq> 0 \<longrightarrow>
      has_avx2 (fst (snd (intel_cpu_features b p c))) =
        (if HAVE_AVX2INTRIN_H b \<and> fst (avx_usable b p (cpuid_insn p 1 0)) \<noteq> 0
         then flag (ebx (cpuid_insn p 7 0)) CPUID_EBX_AVX2 else 0))"
proof -
  have std: "CheckFeature p f rn bn = (Inr False, [Cpuid 0 0])"
    if "0 < f" "f < 0x80000000" "eax (cpuid_insn p 0 0) < f" for f rn bn
    using standard_exceeds [OF that] by (simp add: CheckFeature_beyond_standard)
  have ext: "CheckFeature p f rn bn = (Inr False, [Cpuid 0x80000000 0])"
    if "0x80000000 \<le> eax (cpuid_insn p 0x80000000 0)" "eax (cpuid_insn p 0x80000000 0) < f"
    for f rn bn
    using extended_exceeds [OF that] by (simp add: CheckFeature_beyond_extended)
  have seven: "SupportAVX2 p = (Inr False, [Cpuid 0 0]) \<and> SupportAVX512 p = (Inr False, [Cpuid 0 0])"
    if "eax (cpuid_insn p 0 0) < 7"
    using std [of 7 1 5] std [of 7 1 16] that by (simp add: SupportAVX2_def SupportAVX512_def)
  from std [of functionId registerNumber bitNumber] ext [of functionId registerNumber bitNumber]
    seven intel_cpu_features_selector_7 [of s b p c] intel_cpu_features_avx2_value [of p b c]
  show ?thesis by blast
qed

theorem selector_beyond_maximum_witness:
  "(0 :: u32) < 7 \<and> (7 :: u32) < 0x80000000 \<and> eax (cpuid_insn low_max_stub 0 0) < 7 \<and>
   CheckFeature low_max_stub 7 1 5 = (Inr False, [Cpuid 0 0]) \<and>
   SupportAVX2 low_max_stub = (Inr False, [Cpuid 0 0]) \<and>
   SupportAVX512 low_max_stub = (Inr False, [Cpuid 0 0]) \<and>
   0x80000000 \<le> eax (cpuid_insn low_max_stub 0x80000000 0) \<and>
   eax (cpuid_insn low_max_stub 0x80000000 0) < 0x80000001 \<and>
   CheckFeature low_max_stub 0x80000001 3 29 = (Inr False, [Cpuid 0x80000000 0]) \<and>
   eax (cpuid_insn low_max_stub 0 0) \<noteq> 0 \<and>
   Cpuid 7 0 \<in> set (snd (snd (intel_cpu_features msvc_build low_max_stub stale_stack))) \<and>
   has_avx2 (fst (snd (intel_cpu_features msvc_build low_max_stub stale_stack))) = 1"
proof -
  note low = selector_beyond_maximum [of 7 low_max_stub 1 5 0 msvc_build stale_stack]
  note ext = selector_beyond_maximum [of "0x80000001" low_max_stub 3 29 0 msvc_build stale_stack]
  have h1: "(0 :: u32) < 7 \<and> (7 :: u32) < 0x80000000 \<and> eax (cpuid_insn low_max_stub 0 0) < 7"
    by (simp add: low_max_stub_def)
  have h2: "0x80000000 \<le> eax (cpuid_insn low_max_stub 0x80000000 0) \<and>
      eax (cpuid_insn low_max_stub 0x80000000 0) < 0x80000001"
    by (simp add: low_max_stub_def)
  have nz: "eax (cpuid_insn low_max_stub 0 0) \<noteq> 0" by (simp add: low_max_stub_def)
  have b: "HAVE_AVX2INTRIN_H msvc_build" by (simp add: msvc_build_def)
  have av: "fst (avx_usable msvc_build low_max_stub (cpuid_insn low_max_stub 1 0)) \<noteq> 0"
    by (simp add: avx_usable_msvc) (simp add: low_max_stub_def)
  have fl: "flag (ebx (cpuid_insn low_max_stub 7 0)) CPUID_EBX_AVX2 = 1"
    by (simp add: flag_def CPUID_EBX_AVX2_def low_max_stub_def)
  from low h1 have w1: "CheckFeature low_max_stub 7 1 5 = (Inr False, [Cpuid 0 0])" by blast
  from low h1 have w2: "SupportAVX2 low_max_stub = (Inr False, [Cpuid 0 0]) \<and>
      SupportAVX512 low_max_stub = (Inr False, [Cpuid 0 0])" by blast
  from ext h2 have w3: "CheckFeature low_max_stub 0x80000001 3 29 = (Inr False, [Cpuid 0x80000000 0])"
    by blast
  from low nz b av
  have w4: "Cpuid 7 0 \<in> set (snd (snd (intel_cpu_features msvc_build low_max_stub stale_stack)))"
    by blast
  from low nz b av fl
  have w5: "has_avx2 (fst (snd (intel_cpu_features msvc_build low_max_stub stale_stack))) = 1"
    by simp
  from h1 w1 w2 h2 w3 nz w4 w5 show ?thesis by blast
qed

end
